theory Spec2Isabelle
  imports Complex_Main
begin

section \<open>Errors, buffers and the numeric helpers of the array library\<close>

text \<open>
  Samples are real numbers and sample rates are integers: the development is about the
  arithmetic the code writes down, read over the reals. The rounding of floating point,
  also in the products \<open>0.02 * sample_rate\<close> and \<open>0.01 * sample_rate\<close>, is outside
  it. An exception of the Python code is a value \<open>Inl e\<close>.
\<close>

datatype error = ParameterError | ValueError | IndexError

type_synonym audio = "real list"

text \<open>Python's \<^verbatim>\<open>int(r)\<close> truncates towards zero.\<close>

definition py_int :: "real \<Rightarrow> int" where
  "py_int r = (if 0 \<le> r then \<lfloor>r\<rfloor> else \<lceil>r\<rceil>)"

text \<open>
  \<^verbatim>\<open>np.mean\<close>, \<^verbatim>\<open>np.std\<close> (population standard deviation) and \<^verbatim>\<open>np.max\<close>.
  \<^verbatim>\<open>np.max\<close> of an empty array raises ValueError. \<^verbatim>\<open>np.mean\<close> of an empty array
  is nan, with a warning only; here it is \<open>0 / 0 = 0\<close>. The difference shows in the RMS
  of the empty buffer alone (nan in Python, \<open>0\<close> here), which \<open>evaluate_audio\<close> never
  returns, since it raises on the empty buffer when it takes the peak; every other mean
  below is taken over at least one value, or compared with \<open>> 0\<close>, which nan and \<open>0\<close>
  both fail.
\<close>

definition np_mean :: "real list \<Rightarrow> real" where
  "np_mean xs = sum_list xs / real (length xs)"

definition np_std :: "real list \<Rightarrow> real" where
  "np_std xs = sqrt (np_mean (map (\<lambda>x. \<bar>x - np_mean xs\<bar>\<^sup>2) xs))"

definition np_max :: "real list \<Rightarrow> error + real" where
  "np_max xs = (if xs = [] then Inl ValueError else Inr (Max (set xs)))"

definition count_true :: "bool list \<Rightarrow> nat" where
  "count_true bs = length (filter (\<lambda>b. b) bs)"

section \<open>Framing and the decibel conversion (librosa)\<close>

text \<open>
  \<^verbatim>\<open>librosa.util.frame(x, frame_length, hop_length)\<close> raises ParameterError when the
  buffer is shorter than one frame or when the hop is below 1; otherwise frame \<open>i\<close> holds
  the \<open>frame_length\<close> samples from \<open>i * hop_length\<close> on, for
  \<open>1 + (len - frame_length) div hop_length\<close> frames. A frame is a row here.
\<close>

definition frame :: "audio \<Rightarrow> int \<Rightarrow> int \<Rightarrow> error + audio list" where
  "frame x frame_length hop_length =
     (if int (length x) < frame_length then Inl ParameterError
      else if hop_length < 1 then Inl ParameterError
      else Inr (map (\<lambda>i. take (nat frame_length) (drop (i * nat hop_length) x))
                  [0..<1 + (length x - nat frame_length) div nat hop_length]))"

text \<open>
  \<^verbatim>\<open>librosa.power_to_db(S, ref, amin, top_db)\<close>:
  \<open>10 log10 (max amin S) - 10 log10 (max amin ref)\<close>, then floored at \<open>top_db\<close> below
  the largest value. \<^verbatim>\<open>librosa.amplitude_to_db(S, ref=np.max)\<close> with its defaults
  \<open>amin = 1e-5\<close>, \<open>top_db = 80\<close> takes the reference from the magnitudes and calls
  \<open>power_to_db\<close> on the squares, with \<open>ref\<^sup>2\<close> and \<open>amin\<^sup>2\<close>.
\<close>

definition power_to_db :: "real list \<Rightarrow> real \<Rightarrow> real \<Rightarrow> real \<Rightarrow> real list" where
  "power_to_db S ref amin top_db =
     (let ref_value = \<bar>ref\<bar>;
          log_spec = map (\<lambda>s. 10 * log 10 (max amin s) - 10 * log 10 (max amin ref_value)) S
      in map (\<lambda>v. max v (Max (set log_spec) - top_db)) log_spec)"

definition amplitude_to_db :: "real list \<Rightarrow> error + real list" where
  "amplitude_to_db S =
     (let magnitude = map abs S
      in case np_max magnitude of
           Inl e \<Rightarrow> Inl e
         | Inr ref_value \<Rightarrow>
             Inr (power_to_db (map (\<lambda>m. m\<^sup>2) magnitude) (ref_value\<^sup>2) ((1 / 100000)\<^sup>2) 80))"

text \<open>The part the two silence detectors share (lines 45-50 of noise_reducer.py, lines
  107-112 of evaluator.py): the frames, their energies as sums of squares, the decibel
  values and the frame mask.\<close>

definition frame_energy :: "audio list \<Rightarrow> real list" where
  "frame_energy frames = map (\<lambda>f. sum_list (map (\<lambda>x. x\<^sup>2) f)) frames"

definition frame_silence_mask :: "audio \<Rightarrow> int \<Rightarrow> int \<Rightarrow> real \<Rightarrow> error + bool list" where
  "frame_silence_mask audio_data frame_length hop_length threshold_db =
     (case frame audio_data frame_length hop_length of
        Inl e \<Rightarrow> Inl e
      | Inr frames \<Rightarrow>
          (case amplitude_to_db (frame_energy frames) of
             Inl e \<Rightarrow> Inl e
           | Inr energy_db \<Rightarrow> Inr (map (\<lambda>d. d < threshold_db) energy_db)))"

section \<open>The evaluator (src/core/evaluator.py)\<close>

record standards_t =
  std_rms_db :: real
  std_peak_db :: real
  std_cv :: real
  std_snr :: real
  std_non_speech_ratio :: real
  std_max_silence :: real

record AudioEvaluator =
  standards :: standards_t

definition AudioEvaluator_init :: AudioEvaluator where
  "AudioEvaluator_init =
     \<lparr>standards = \<lparr>std_rms_db = -30, std_peak_db = 0, std_cv = 0.5, std_snr = 20,
                    std_non_speech_ratio = 0.3, std_max_silence = 1.0\<rparr>\<rparr>"

record metrics =
  rms :: real
  rms_db :: real
  peak :: real
  peak_db :: real
  cv :: real
  snr :: real
  non_speech_ratio :: real
  max_silence :: real

definition calculate_rms :: "audio \<Rightarrow> real \<times> real" where
  "calculate_rms audio_data =
     (let r = sqrt (np_mean (map (\<lambda>x. x\<^sup>2) audio_data));
          r_db = (if r > 0 then 20 * log 10 r else -100)
      in (r, r_db))"

definition calculate_peak :: "audio \<Rightarrow> error + real \<times> real" where
  "calculate_peak audio_data =
     (case np_max (map abs audio_data) of
        Inl e \<Rightarrow> Inl e
      | Inr p \<Rightarrow> Inr (p, if p > 0 then 20 * log 10 p else -100))"

definition calculate_cv :: "audio \<Rightarrow> real" where
  "calculate_cv audio_data =
     (let abs_data = map abs audio_data
      in if np_mean abs_data > 0 then np_std abs_data / np_mean abs_data else 1.0)"

definition estimate_snr :: "audio \<Rightarrow> real" where
  "estimate_snr audio_data =
     (let signal_power = np_mean (map (\<lambda>x. x\<^sup>2) audio_data);
          noise = map (\<lambda>x. x - np_mean audio_data) audio_data;
          noise_power = np_mean (map (\<lambda>x. x\<^sup>2) noise)
      in if noise_power > 0 then 10 * log 10 (signal_power / noise_power) else 100)"

text \<open>The loop of lines 118-129 over the frame mask, with its two counters, and the
  final maximum after the loop.\<close>

fun longest_silence :: "bool list \<Rightarrow> nat \<Rightarrow> nat \<Rightarrow> nat" where
  "longest_silence [] max_silence_frames current_silence =
     max max_silence_frames current_silence"
| "longest_silence (is_silence # rest) max_silence_frames current_silence =
     (if is_silence then longest_silence rest max_silence_frames (current_silence + 1)
      else longest_silence rest (max max_silence_frames current_silence) 0)"

definition AudioEvaluator_detect_silence :: "audio \<Rightarrow> int \<Rightarrow> real \<Rightarrow> error + real \<times> real" where
  "AudioEvaluator_detect_silence audio_data sr threshold_db =
     (let frame_length = py_int (0.02 * real_of_int sr);
          hop_length = py_int (0.01 * real_of_int sr)
      in case frame_silence_mask audio_data frame_length hop_length threshold_db of
           Inl e \<Rightarrow> Inl e
         | Inr silence_mask \<Rightarrow>
             (let nsr = real (count_true silence_mask) / real (length silence_mask);
                  max_silence_frames = longest_silence silence_mask 0 0
              in Inr (nsr, real max_silence_frames * real_of_int hop_length / real_of_int sr)))"

definition evaluate_audio :: "AudioEvaluator \<Rightarrow> audio \<Rightarrow> int \<Rightarrow> error + metrics \<times> bool" where
  "evaluate_audio self audio_data sr =
     (let (r, r_db) = calculate_rms audio_data
      in case calculate_peak audio_data of
           Inl e \<Rightarrow> Inl e
         | Inr (p, p_db) \<Rightarrow>
             (let c = calculate_cv audio_data;
                  s = estimate_snr audio_data
              in case AudioEvaluator_detect_silence audio_data sr (-45) of
                   Inl e \<Rightarrow> Inl e
                 | Inr (nsr, ms) \<Rightarrow>
                     (let m = \<lparr>rms = r, rms_db = r_db, peak = p, peak_db = p_db, cv = c,
                                snr = s, non_speech_ratio = nsr, max_silence = ms\<rparr>;
                          compliant =
                            (r_db \<ge> std_rms_db (standards self) \<and>
                             p_db \<le> std_peak_db (standards self) \<and>
                             c \<le> std_cv (standards self) \<and>
                             s \<ge> std_snr (standards self) \<and>
                             nsr \<le> std_non_speech_ratio (standards self) \<and>
                             ms \<le> std_max_silence (standards self))
                      in Inr (m, compliant))))"

section \<open>The numeric kernels of the signal libraries\<close>

text \<open>
  The denoisers call the short-time Fourier transform and its inverse (librosa), a
  Butterworth design and a forward-backward filter (scipy) and the Ricker wavelet
  (scipy). The values these compute are a parameter of the development; the shapes of
  their results, and the errors they raise, are those the libraries document:
  \<^item> \<^verbatim>\<open>stft(y, n_fft, hop_length)\<close>, centred: \<open>1 + n_fft div 2\<close> rows (frequency bins)
    of \<open>1 + len(y) div hop_length\<close> frames;
  \<^item> \<^verbatim>\<open>istft(D, hop_length, length)\<close>: the signal, zero-padded or cut to \<open>length\<close>;
  \<^item> \<^verbatim>\<open>filtfilt(b, a, x)\<close>: ValueError unless \<open>len(x)\<close> exceeds the pad length
    \<open>3 * max(len(a), len(b))\<close>, otherwise an output of the shape of \<open>x\<close>;
  \<^item> \<^verbatim>\<open>ricker(points, a)\<close>: a vector of \<open>points\<close> values.
\<close>

record backend =
  stft_value :: "audio \<Rightarrow> nat \<Rightarrow> nat \<Rightarrow> nat \<Rightarrow> nat \<Rightarrow> complex"
  istft_signal :: "complex list list \<Rightarrow> nat \<Rightarrow> audio"
  butter :: "nat \<Rightarrow> real \<Rightarrow> real list \<times> real list"
  filtfilt_value :: "real list \<Rightarrow> real list \<Rightarrow> audio \<Rightarrow> nat \<Rightarrow> real"
  ricker_value :: "nat \<Rightarrow> real \<Rightarrow> nat \<Rightarrow> real"

definition stft :: "backend \<Rightarrow> audio \<Rightarrow> nat \<Rightarrow> nat \<Rightarrow> complex list list" where
  "stft be y n_fft hop_length =
     map (\<lambda>k. map (\<lambda>t. stft_value be y n_fft hop_length k t) [0..<1 + length y div hop_length])
       [0..<1 + n_fft div 2]"

definition fix_length :: "audio \<Rightarrow> nat \<Rightarrow> audio" where
  "fix_length data n = take n (data @ replicate (n - length data) 0)"

definition istft :: "backend \<Rightarrow> complex list list \<Rightarrow> nat \<Rightarrow> nat \<Rightarrow> audio" where
  "istft be D hop_length len = fix_length (istft_signal be D hop_length) len"

definition filtfilt :: "backend \<Rightarrow> real list \<Rightarrow> real list \<Rightarrow> audio \<Rightarrow> error + audio" where
  "filtfilt be b a x =
     (if length x \<le> 3 * max (length a) (length b) then Inl ValueError
      else Inr (map (\<lambda>n. filtfilt_value be b a x n) [0..<length x]))"

definition ricker :: "backend \<Rightarrow> nat \<Rightarrow> real \<Rightarrow> real list" where
  "ricker be points a = map (\<lambda>i. ricker_value be points a i) [0..<points]"

text \<open>
  \<^verbatim>\<open>np.convolve(a, v, mode='same')\<close>: ValueError on an empty argument; otherwise the
  middle \<open>max(len a, len v)\<close> values of the full convolution, which starts
  \<open>(min(len a, len v) - 1) div 2\<close> values into it.
\<close>

definition convolve_full :: "real list \<Rightarrow> real list \<Rightarrow> real list" where
  "convolve_full a v =
     map (\<lambda>k. sum_list (map (\<lambda>j. if j \<le> k \<and> k - j < length v then a ! j * v ! (k - j) else 0)
                            [0..<length a]))
       [0..<length a + length v - 1]"

definition np_convolve_same :: "real list \<Rightarrow> real list \<Rightarrow> error + real list" where
  "np_convolve_same a v =
     (if a = [] \<or> v = [] then Inl ValueError
      else Inr (take (max (length a) (length v))
                  (drop ((min (length a) (length v) - 1) div 2) (convolve_full a v))))"

text \<open>
  \<^verbatim>\<open>scipy.signal.cwt(data, wavelet, widths)\<close>: one row per width, the buffer convolved
  (mode 'same') with the reversed wavelet of \<open>min(10 * width, len(data))\<close> points. The
  wavelet is never longer than the buffer, where \<^verbatim>\<open>scipy.signal.convolve\<close> and
  \<^verbatim>\<open>np.convolve\<close> agree.
\<close>

fun cwt :: "audio \<Rightarrow> (nat \<Rightarrow> real \<Rightarrow> real list) \<Rightarrow> nat list \<Rightarrow> error + real list list" where
  "cwt data wavelet [] = Inr []"
| "cwt data wavelet (width # widths) =
     (let N = min (10 * width) (length data);
          wavelet_data = rev (wavelet N (real width))
      in case np_convolve_same data wavelet_data of
           Inl e \<Rightarrow> Inl e
         | Inr row \<Rightarrow>
             (case cwt data wavelet widths of
                Inl e \<Rightarrow> Inl e
              | Inr output \<Rightarrow> Inr (row # output)))"

text \<open>\<^verbatim>\<open>np.median\<close> of the flattened array; the mean along axis 0 of a matrix held as
  its rows; indexing and assignment through a boolean mask, which numpy refuses
  (IndexError) when the mask has another length than the array, and (ValueError) when
  the values assigned are not as many as the marked positions.\<close>

definition np_median :: "real list \<Rightarrow> real" where
  "np_median xs =
     (let s = sort xs; n = length s
      in if even n then (s ! (n div 2 - 1) + s ! (n div 2)) / 2 else s ! (n div 2))"

definition mean_axis0 :: "real list list \<Rightarrow> real list" where
  "mean_axis0 M = map np_mean (transpose M)"

definition bool_index :: "'a list \<Rightarrow> bool list \<Rightarrow> error + 'a list" where
  "bool_index xs bs =
     (if length bs \<noteq> length xs then Inl IndexError
      else Inr (map fst (filter snd (zip xs bs))))"

fun assign_where :: "'a list \<Rightarrow> bool list \<Rightarrow> 'a list \<Rightarrow> 'a list" where
  "assign_where (x # xs) (True # bs) (v # vs) = v # assign_where xs bs vs"
| "assign_where (x # xs) (False # bs) vs = x # assign_where xs bs vs"
| "assign_where xs bs vs = xs"

definition bool_assign :: "'a list \<Rightarrow> bool list \<Rightarrow> 'a list \<Rightarrow> error + 'a list" where
  "bool_assign xs bs vs =
     (if length bs \<noteq> length xs then Inl IndexError
      else if length vs \<noteq> count_true bs then Inl ValueError
      else Inr (assign_where xs bs vs))"

section \<open>The noise reducer (src/core/noise_reducer.py)\<close>

record NoiseReducer =
  sample_rate :: int
  silence_threshold_db :: real
  wavelet_threshold_mult :: real
  target_snr :: real

definition NoiseReducer_init :: "int \<Rightarrow> NoiseReducer" where
  "NoiseReducer_init sr =
     \<lparr>sample_rate = sr, silence_threshold_db = -45, wavelet_threshold_mult = 2.5,
      target_snr = 20\<rparr>"

text \<open>\<^verbatim>\<open>full_mask[start:stop] = True\<close>, and the loop of lines 54-58 that widens the
  frame mask to the samples.\<close>

definition set_slice_true :: "bool list \<Rightarrow> nat \<Rightarrow> nat \<Rightarrow> bool list" where
  "set_slice_true full_mask start stop =
     map (\<lambda>j. if start \<le> j \<and> j < stop then True else full_mask ! j) [0..<length full_mask]"

fun expand_mask :: "bool list \<Rightarrow> nat \<Rightarrow> nat \<Rightarrow> nat \<Rightarrow> nat \<Rightarrow> bool list \<Rightarrow> bool list" where
  "expand_mask [] i hop_length frame_length n full_mask = full_mask"
| "expand_mask (is_silence # rest) i hop_length frame_length n full_mask =
     (let start = i * hop_length;
          stop = min (start + frame_length) n
      in expand_mask rest (i + 1) hop_length frame_length n
           (if is_silence then set_slice_true full_mask start stop else full_mask))"

definition NoiseReducer_detect_silence :: "NoiseReducer \<Rightarrow> audio \<Rightarrow> real option \<Rightarrow> error + bool list" where
  "NoiseReducer_detect_silence self audio_data threshold_db =
     (let threshold = (case threshold_db of None \<Rightarrow> silence_threshold_db self | Some t \<Rightarrow> t);
          frame_length = py_int (0.02 * real_of_int (sample_rate self));
          hop_length = py_int (0.01 * real_of_int (sample_rate self))
      in case frame_silence_mask audio_data frame_length hop_length threshold of
           Inl e \<Rightarrow> Inl e
         | Inr silence_mask \<Rightarrow>
             Inr (expand_mask silence_mask 0 (nat hop_length) (nat frame_length)
                    (length audio_data) (replicate (length audio_data) False)))"

text \<open>
  Lines 84-97 of \<^verbatim>\<open>reduce_noise_standard\<close>: the magnitudes (\<^verbatim>\<open>magphase\<close>,
  \<^verbatim>\<open>np.abs\<close>), the noise profile as the mean magnitude of each frequency bin over the
  frames of the silent samples, the subtraction with its floor (the profile is a column,
  broadcast along the frames) and the original phase put back.
\<close>

definition magnitude :: "complex list list \<Rightarrow> real list list" where
  "magnitude D = map (map cmod) D"

definition noise_profile :: "backend \<Rightarrow> audio \<Rightarrow> nat \<Rightarrow> nat \<Rightarrow> real list" where
  "noise_profile be noise_sample n_fft hop_length =
     (let noise_stft = stft be noise_sample n_fft hop_length;
          noise_mag = magnitude noise_stft
      in map np_mean noise_mag)"

definition spectral_subtract :: "real list list \<Rightarrow> real list \<Rightarrow> real list list" where
  "spectral_subtract stft_mag noise_spec =
     map2 (\<lambda>row n. map (\<lambda>m. max (m - n) (0.01 * m)) row) stft_mag noise_spec"

definition with_phase :: "real list list \<Rightarrow> complex list list \<Rightarrow> complex list list" where
  "with_phase masked_stft_mag D =
     map2 (map2 (\<lambda>m z. complex_of_real m * cis (Arg z))) masked_stft_mag D"

definition reduce_noise_standard :: "backend \<Rightarrow> NoiseReducer \<Rightarrow> audio \<Rightarrow> error + audio" where
  "reduce_noise_standard be self audio_data =
     (case NoiseReducer_detect_silence self audio_data None of
        Inl e \<Rightarrow> Inl e
      | Inr silence_mask \<Rightarrow>
          if count_true silence_mask > 0 then
            (case bool_index audio_data silence_mask of
               Inl e \<Rightarrow> Inl e
             | Inr noise_sample \<Rightarrow>
                 (let n_fft = 2048;
                      hop_length = 512;
                      D = stft be audio_data n_fft hop_length;
                      stft_mag = magnitude D;
                      noise_spec = noise_profile be noise_sample n_fft hop_length;
                      masked_stft_mag = spectral_subtract stft_mag noise_spec;
                      masked_stft = with_phase masked_stft_mag D
                  in Inr (istft be masked_stft hop_length (length audio_data))))
          else
            (let cutoff = 0.1
             in case butter be 8 cutoff of
                  (b, a) \<Rightarrow> filtfilt be b a audio_data))"

text \<open>Lines 121-124 of \<^verbatim>\<open>reduce_noise_wavelet\<close>: the threshold, and the product of
  each coefficient with the 0/1 value of the comparison.\<close>

definition wavelet_threshold :: "NoiseReducer \<Rightarrow> real list list \<Rightarrow> real" where
  "wavelet_threshold self coeffs =
     wavelet_threshold_mult self * np_median (concat (map (map abs) coeffs)) / 0.6745"

definition apply_threshold :: "real list list \<Rightarrow> real \<Rightarrow> real list list" where
  "apply_threshold coeffs threshold =
     map (map (\<lambda>c. c * (if \<bar>c\<bar> > threshold then 1 else 0))) coeffs"

definition rms_energy :: "audio \<Rightarrow> real" where
  "rms_energy xs = sqrt (np_mean (map (\<lambda>x. x\<^sup>2) xs))"

text \<open>Lines 117-131: the transform, the threshold, the reconstruction as the mean over
  the scales and its normalisation to unit peak. Lines 133-140: the rescaling to the
  energy of the input.\<close>

definition wavelet_reconstruct :: "backend \<Rightarrow> NoiseReducer \<Rightarrow> audio \<Rightarrow> error + audio" where
  "wavelet_reconstruct be self audio_data =
     (case cwt audio_data (ricker be) [1..<31] of
        Inl e \<Rightarrow> Inl e
      | Inr coeffs \<Rightarrow>
          (let threshold = wavelet_threshold self coeffs;
               coeffs_thresholded = apply_threshold coeffs threshold;
               denoised_audio = mean_axis0 coeffs_thresholded
           in case np_max (map abs denoised_audio) of
                Inl e \<Rightarrow> Inl e
              | Inr mx \<Rightarrow>
                  Inr (if mx > 0 then map (\<lambda>v. v / mx) denoised_audio else denoised_audio)))"

definition reduce_noise_wavelet :: "backend \<Rightarrow> NoiseReducer \<Rightarrow> audio \<Rightarrow> error + audio" where
  "reduce_noise_wavelet be self audio_data =
     (case wavelet_reconstruct be self audio_data of
        Inl e \<Rightarrow> Inl e
      | Inr denoised_audio \<Rightarrow>
          (let orig_energy = rms_energy audio_data;
               denoised_energy = rms_energy denoised_audio
           in Inr (if denoised_energy > 0
                   then map (\<lambda>v. v * (orig_energy / denoised_energy)) denoised_audio
                   else denoised_audio)))"

text \<open>The masked mixing of lines 163-165 and 189-193: a buffer of zeros, the silent
  samples assigned \<open>0.9\<close> of the denoised ones, the others a weighted sum of the
  denoised and the original ones.\<close>

definition masked_mix :: "audio \<Rightarrow> audio \<Rightarrow> bool list \<Rightarrow> real \<Rightarrow> real \<Rightarrow> error + audio" where
  "masked_mix audio_data denoised silence_mask w_denoised w_original =
     (let non_silence_mask = map Not silence_mask;
          mixed_audio = replicate (length audio_data) 0
      in case bool_index denoised silence_mask of
           Inl e \<Rightarrow> Inl e
         | Inr d_silent \<Rightarrow>
             (case bool_assign mixed_audio silence_mask (map (\<lambda>v. v * 0.9) d_silent) of
                Inl e \<Rightarrow> Inl e
              | Inr mixed_audio \<Rightarrow>
                  (case bool_index denoised non_silence_mask of
                     Inl e \<Rightarrow> Inl e
                   | Inr d_voiced \<Rightarrow>
                       (case bool_index audio_data non_silence_mask of
                          Inl e \<Rightarrow> Inl e
                        | Inr a_voiced \<Rightarrow>
                            bool_assign mixed_audio non_silence_mask
                              (map2 (\<lambda>d a. d * w_denoised + a * w_original) d_voiced a_voiced)))))"

definition multi_stage_denoising :: "backend \<Rightarrow> NoiseReducer \<Rightarrow> audio \<Rightarrow> error + audio" where
  "multi_stage_denoising be self audio_data =
     (case reduce_noise_standard be self audio_data of
        Inl e \<Rightarrow> Inl e
      | Inr stage1_audio \<Rightarrow>
          (case reduce_noise_wavelet be self stage1_audio of
             Inl e \<Rightarrow> Inl e
           | Inr stage2_audio \<Rightarrow>
               (case NoiseReducer_detect_silence self audio_data None of
                  Inl e \<Rightarrow> Inl e
                | Inr silence_mask \<Rightarrow>
                    masked_mix audio_data stage2_audio silence_mask 0.6 0.4)))"

definition enhanced_multi_stage_denoising ::
    "backend \<Rightarrow> NoiseReducer \<Rightarrow> audio \<Rightarrow> bool \<Rightarrow> error + audio" where
  "enhanced_multi_stage_denoising be self audio_data voice_preserve =
     (case multi_stage_denoising be self audio_data of
        Inl e \<Rightarrow> Inl e
      | Inr denoised_audio \<Rightarrow>
          if voice_preserve then
            (case NoiseReducer_detect_silence self audio_data None of
               Inl e \<Rightarrow> Inl e
             | Inr silence_mask \<Rightarrow>
                 (case masked_mix audio_data denoised_audio silence_mask 0.7 0.3 of
                    Inl e \<Rightarrow> Inl e
                  | Inr result \<Rightarrow>
                      (let window_size = py_int (0.01 * real_of_int (sample_rate self))
                       in np_convolve_same result
                            (map (\<lambda>one. one / real_of_int window_size)
                               (replicate (nat window_size) 1)))))
          else Inr denoised_audio)"

section \<open>Auxiliary definitions for the statements\<close>

text \<open>
  A small concrete instance of the numeric kernels, to run the definitions on concrete
  buffers: every spectral value is the sum of the samples, the inverse transform returns
  no samples (so that \<open>istft\<close> pads with zeros), the filter has one tap and copies its
  input, and the wavelet is the unit impulse that makes each scale of the transform a
  copy of the buffer.
\<close>

definition example_backend :: backend where
  "example_backend =
     \<lparr>stft_value = (\<lambda>y n_fft hop_length k t. complex_of_real (sum_list y)),
      istft_signal = (\<lambda>D hop_length. []),
      butter = (\<lambda>N Wn. ([1], [1])),
      filtfilt_value = (\<lambda>b a x n. x ! n),
      ricker_value = (\<lambda>points a i. if i = points - 1 - (points - 1) div 2 then 1 else 0)\<rparr>"

text \<open>The decibel value of an energy \<open>e\<close> relative to a reference \<open>m\<close>, both held at
  or above the floor \<open>1e-5\<close> of \<open>amplitude_to_db\<close>.\<close>

definition db_rel :: "real \<Rightarrow> real \<Rightarrow> real" where
  "db_rel e m = 20 * log 10 (max (1 / 100000) e) - 20 * log 10 (max (1 / 100000) m)"

text \<open>
  The decibel conversion and the frame mask in the words of the specification, section
  4.1: \<open>10 log10 (energy / max_energy)\<close>, or \<open>-100\<close> when the buffer is entirely
  silent. They are compared below with \<open>amplitude_to_db\<close> and \<open>frame_silence_mask\<close>.
\<close>

definition spec_energy_db :: "real list \<Rightarrow> real list" where
  "spec_energy_db energy =
     (let max_energy = Max (set energy)
      in map (\<lambda>e. if max_energy = 0 then -100 else 10 * log 10 (e / max_energy)) energy)"

definition spec_frame_silence_mask :: "audio \<Rightarrow> int \<Rightarrow> int \<Rightarrow> real \<Rightarrow> error + bool list" where
  "spec_frame_silence_mask audio_data frame_length hop_length threshold_db =
     (case frame audio_data frame_length hop_length of
        Inl e \<Rightarrow> Inl e
      | Inr frames \<Rightarrow> Inr (map (\<lambda>d. d < threshold_db) (spec_energy_db (frame_energy frames))))"

section \<open>A run of the evaluator\<close>

lemmas evaluator_defs =
  evaluate_audio_def AudioEvaluator_init_def calculate_rms_def calculate_peak_def
  calculate_cv_def estimate_snr_def np_mean_def np_std_def AudioEvaluator_detect_silence_def
  frame_silence_mask_def py_int_def frame_def frame_energy_def amplitude_to_db_def np_max_def
  power_to_db_def count_true_def

lemma evaluate_audio_unit_buffer:
  "evaluate_audio AudioEvaluator_init [1, 1] 100 =
     Inr (\<lparr>rms = 1, rms_db = 0, peak = 1, peak_db = 0, cv = 0, snr = 100,
            non_speech_ratio = 0, max_silence = 0\<rparr>, True)"
  by (simp add: evaluator_defs Let_def)

section \<open>Framing and the decibel values\<close>

lemma frame_Inr:
  "frame x fl hop = Inr fs \<longleftrightarrow>
     fl \<le> int (length x) \<and> 1 \<le> hop \<and>
     fs = map (\<lambda>i. take (nat fl) (drop (i * nat hop) x))
            [0..<1 + (length x - nat fl) div nat hop]"
  by (auto simp: frame_def)

lemma frame_Inl:
  "frame x fl hop = Inl e \<longleftrightarrow> (int (length x) < fl \<or> hop < 1) \<and> e = ParameterError"
  by (auto simp: frame_def)

lemma frame_nonempty: "frame x fl hop = Inr fs \<Longrightarrow> fs \<noteq> []"
  by (auto simp: frame_Inr)

lemma frame_energy_nonneg: "e \<in> set (frame_energy frames) \<Longrightarrow> 0 \<le> e"
  by (auto simp: frame_energy_def intro!: sum_list_nonneg)

lemma length_frame_energy [simp]: "length (frame_energy frames) = length frames"
  by (simp add: frame_energy_def)

lemma log_max_sq:
  assumes "0 \<le> e"
  shows "10 * log 10 (max ((1 / 100000)\<^sup>2) (e\<^sup>2)) = 20 * log 10 (max (1 / 100000) e)"
proof -
  have "max ((1 / 100000)\<^sup>2) (e\<^sup>2) = (max (1 / 100000) e)\<^sup>2"
    using assms by (simp add: max_def power2_le_iff_abs_le abs_of_nonneg power_mono_iff)
  moreover have "0 < max (1 / 100000) e" by (simp add: max_def)
  ultimately show ?thesis
    by (simp add: log_nat_power)
qed

lemma db_rel_le_0: "e \<le> m \<Longrightarrow> db_rel e m \<le> 0"
proof -
  assume "e \<le> m"
  then have "max (1 / 100000) e \<le> max (1 / 100000) m" by (simp add: max_def)
  moreover have "0 < max (1 / 100000) e" by (simp add: max_def)
  ultimately have "log 10 (max (1 / 100000) e) \<le> log 10 (max (1 / 100000) m)"
    by (simp add: max_def)
  then show ?thesis by (simp add: db_rel_def)
qed

lemma db_rel_self [simp]: "db_rel m m = 0"
  by (simp add: db_rel_def)

lemma amplitude_to_db_closed:
  assumes ne: "S \<noteq> []" and nonneg: "\<forall>e\<in>set S. 0 \<le> e"
  shows "amplitude_to_db S = Inr (map (\<lambda>e. max (db_rel e (Max (set S))) (-80)) S)"
proof -
  let ?M = "Max (set S)"
  have Min: "?M \<in> set S" using ne by (simp add: Max_in)
  then have M0: "0 \<le> ?M" using nonneg by blast
  have absS: "map abs S = S" using nonneg by (simp add: map_idI)
  let ?ls = "map (\<lambda>s. 10 * log 10 (max ((1 / 100000)\<^sup>2) s)
                      - 10 * log 10 (max ((1 / 100000)\<^sup>2) \<bar>?M\<^sup>2\<bar>)) (map (\<lambda>m. m\<^sup>2) S)"
  have ls: "?ls = map (\<lambda>e. db_rel e ?M) S"
    using nonneg M0 by (simp add: log_max_sq db_rel_def)
  have "Max (set (map (\<lambda>e. db_rel e ?M) S)) = 0"
  proof (rule Max_eqI)
    show "finite (set (map (\<lambda>e. db_rel e ?M) S))" by simp
    show "\<And>y. y \<in> set (map (\<lambda>e. db_rel e ?M) S) \<Longrightarrow> y \<le> 0"
      using ne by (auto intro!: db_rel_le_0)
    show "0 \<in> set (map (\<lambda>e. db_rel e ?M) S)"
      using Min by (force simp: image_iff)
  qed
  then have "Max (set ?ls) = 0" using ls by simp
  then show ?thesis
    using ne ls by (simp add: amplitude_to_db_def np_max_def power_to_db_def Let_def absS)
qed

lemma py_int_hop_ge1: "1 \<le> py_int (0.01 * real_of_int sr) \<longleftrightarrow> 100 \<le> sr"
proof (cases "0 \<le> sr")
  case True
  then have "py_int (0.01 * real_of_int sr) = sr div 100"
    by (simp add: py_int_def floor_divide_of_int_eq [symmetric] del: floor_divide_of_int_eq)
       (metis floor_divide_of_int_eq of_int_numeral)
  then show ?thesis by auto
next
  case False
  then have "0.01 * real_of_int sr \<le> 0" by simp
  then have "py_int (0.01 * real_of_int sr) \<le> 0"
    by (auto simp: py_int_def ceiling_le_iff floor_le_iff)
  then show ?thesis using False by auto
qed

lemma py_int_frame_length: "0 \<le> sr \<Longrightarrow> py_int (0.02 * real_of_int sr) = sr div 50"
proof -
  assume "0 \<le> sr"
  have "0.02 * real_of_int sr = real_of_int sr / real_of_int 50" by simp
  then have "\<lfloor>0.02 * real_of_int sr\<rfloor> = sr div 50"
    by (simp only: floor_divide_of_int_eq)
  then show ?thesis using \<open>0 \<le> sr\<close> by (simp add: py_int_def)
qed

lemma py_int_hop_length: "0 \<le> sr \<Longrightarrow> py_int (0.01 * real_of_int sr) = sr div 100"
proof -
  assume "0 \<le> sr"
  have "0.01 * real_of_int sr = real_of_int sr / real_of_int 100" by simp
  then have "\<lfloor>0.01 * real_of_int sr\<rfloor> = sr div 100"
    by (simp only: floor_divide_of_int_eq)
  then show ?thesis using \<open>0 \<le> sr\<close> by (simp add: py_int_def)
qed

lemma frame_silence_mask_closed:
  assumes "frame audio_data fl hop = Inr frames"
  shows "frame_silence_mask audio_data fl hop threshold_db =
           Inr (map (\<lambda>e. max (db_rel e (Max (set (frame_energy frames)))) (-80) < threshold_db)
                  (frame_energy frames))"
proof -
  have "frame_energy frames \<noteq> []"
    using frame_nonempty [OF assms] by (simp add: frame_energy_def)
  then show ?thesis
    using assms frame_energy_nonneg
    by (simp add: frame_silence_mask_def amplitude_to_db_closed)
qed

lemma longest_silence_none: "longest_silence (replicate n False) mx 0 = mx"
  by (induction n arbitrary: mx) auto

lemma count_true_none [simp]: "count_true (replicate n False) = 0"
  by (simp add: count_true_def)

lemma quiet_frame_energy:
  assumes quiet: "\<forall>x\<in>set audio_data. \<bar>x\<bar> \<le> 1 / 1000000"
      and fl: "fl \<le> 10000000"
      and fr: "frame audio_data fl hop = Inr frames"
      and e: "e \<in> set (frame_energy frames)"
  shows "e \<le> 1 / 100000"
proof -
  from fr e obtain i where e_def:
    "e = sum_list (map (\<lambda>x. x\<^sup>2) (take (nat fl) (drop (i * nat hop) audio_data)))"
    by (auto simp: frame_Inr frame_energy_def)
  let ?f = "take (nat fl) (drop (i * nat hop) audio_data)"
  have sub: "set ?f \<subseteq> set audio_data"
    by (meson set_take_subset set_drop_subset subset_trans)
  have each: "\<And>x. x \<in> set ?f \<Longrightarrow> x\<^sup>2 \<le> (1 / 1000000)\<^sup>2"
  proof -
    fix x assume "x \<in> set ?f"
    then have "\<bar>x\<bar> \<le> 1 / 1000000" using sub quiet by blast
    then show "x\<^sup>2 \<le> (1 / 1000000)\<^sup>2"
      by (metis abs_ge_zero power2_abs power_mono)
  qed
  have "sum_list (map (\<lambda>x. x\<^sup>2) ?f) \<le> sum_list (map (\<lambda>x. (1 / 1000000)\<^sup>2) ?f)"
    by (rule sum_list_mono) (use each in auto)
  also have "\<dots> = real (length ?f) * (1 / 1000000)\<^sup>2"
    by (simp add: sum_list_triv)
  also have "\<dots> \<le> 10000000 * (1 / 1000000)\<^sup>2"
  proof -
    have "length ?f \<le> nat fl" by simp
    also have "\<dots> \<le> 10000000" using fl by simp
    finally have "real (length ?f) \<le> 10000000" by simp
    then show ?thesis by (simp add: mult_right_mono)
  qed
  also have "\<dots> = 1 / 100000" by (simp add: power2_eq_square)
  finally show ?thesis using e_def by simp
qed

lemma quiet_frame_silence_mask:
  assumes quiet: "\<forall>x\<in>set audio_data. \<bar>x\<bar> \<le> 1 / 1000000"
      and fl: "fl \<le> 10000000"
      and fr: "frame audio_data fl hop = Inr frames"
      and thr: "threshold_db \<le> 0"
  shows "frame_silence_mask audio_data fl hop threshold_db = Inr (replicate (length frames) False)"
proof -
  let ?E = "frame_energy frames"
  have ne: "?E \<noteq> []" using frame_nonempty [OF fr] by (simp add: frame_energy_def)
  have small: "\<And>e. e \<in> set ?E \<Longrightarrow> e \<le> 1 / 100000"
    using quiet_frame_energy [OF quiet fl fr] by blast
  have "Max (set ?E) \<in> set ?E" using ne by (simp add: Max_in)
  then have Msmall: "Max (set ?E) \<le> 1 / 100000" using small by blast
  have "\<And>e. e \<in> set ?E \<Longrightarrow> db_rel e (Max (set ?E)) = 0"
  proof -
    fix e assume "e \<in> set ?E"
    then have "max (1 / 100000) e = 1 / 100000" using small by (simp add: max_absorb1)
    moreover have "max (1 / 100000) (Max (set ?E)) = 1 / 100000"
      using Msmall by (simp add: max_absorb1)
    ultimately show "db_rel e (Max (set ?E)) = 0" by (simp only: db_rel_def diff_self)
  qed
  then have "map (\<lambda>e. max (db_rel e (Max (set ?E))) (-80) < threshold_db) ?E
             = map (\<lambda>e. False) ?E"
    using thr by (intro map_cong) auto
  also have "\<dots> = replicate (length frames) False"
    by (simp add: map_replicate_const)
  finally show ?thesis
    by (simp add: frame_silence_mask_closed [OF fr])
qed

lemma quiet_AudioEvaluator_detect_silence:
  assumes quiet: "\<forall>x\<in>set audio_data. \<bar>x\<bar> \<le> 1 / 1000000"
      and sr: "100 \<le> sr" "sr \<le> 500000000"
      and len: "py_int (0.02 * real_of_int sr) \<le> int (length audio_data)"
  shows "AudioEvaluator_detect_silence audio_data sr (-45) = Inr (0, 0)"
proof -
  let ?fl = "py_int (0.02 * real_of_int sr)" and ?hop = "py_int (0.01 * real_of_int sr)"
  have hop: "1 \<le> ?hop" using sr py_int_hop_ge1 by blast
  have fl: "?fl \<le> 10000000" using sr py_int_frame_length [of sr] by simp
  obtain frames where fr: "frame audio_data ?fl ?hop = Inr frames"
    using len hop by (auto simp: frame_Inr)
  have "frame_silence_mask audio_data ?fl ?hop (-45) = Inr (replicate (length frames) False)"
    by (rule quiet_frame_silence_mask [OF quiet fl fr]) simp
  then show ?thesis
    by (simp add: AudioEvaluator_detect_silence_def Let_def longest_silence_none)
qed

lemma py_int_numeral [simp]: "py_int (numeral k) = numeral k" "py_int 1 = 1" "py_int 0 = 0"
  by (simp_all add: py_int_def)

lemma log10_inverse_power: "log 10 (1 / 10 ^ n) = - real n"
  by (simp add: log_divide log_nat_power)

lemma log10_tenthousandth [simp]: "log 10 (1 / 10000) = -4"
  using log10_inverse_power [of 4] by simp

lemma log10_amin [simp]: "log 10 (1 / 100000) = -5"
  using log10_inverse_power [of 5] by simp

lemma frame_three: "frame [1, 0, 1 / 100] 2 1 = Inr [[1, 0], [0, 1 / 100]]"
  by (simp add: frame_def upt_rec)

lemma frame_two_zeros: "frame [0, 0] 2 1 = Inr [[0, 0]]"
  by (simp add: frame_def)

lemma code_mask_three: "frame_silence_mask [1, 0, 1 / 100] 2 1 (-45) = Inr [False, True]"
  by (simp add: frame_silence_mask_closed [OF frame_three] frame_energy_def db_rel_def
        power2_eq_square)

lemma spec_mask_three: "spec_frame_silence_mask [1, 0, 1 / 100] 2 1 (-45) = Inr [False, False]"
  by (simp add: spec_frame_silence_mask_def frame_three frame_energy_def spec_energy_db_def
        power2_eq_square)

lemma code_mask_zeros: "frame_silence_mask [0, 0] 2 1 (-45) = Inr [False]"
  by (simp add: frame_silence_mask_closed [OF frame_two_zeros] frame_energy_def db_rel_def)

lemma spec_mask_zeros: "spec_frame_silence_mask [0, 0] 2 1 (-45) = Inr [True]"
  by (simp add: spec_frame_silence_mask_def frame_two_zeros frame_energy_def spec_energy_db_def)


text \<open>
  Claim C5, as the code has it. With frames of \<open>int(0.02 sr)\<close> samples every
  \<open>int(0.01 sr)\<close> samples, the energy of a frame is the sum of its squared samples.
  Its decibel value is \<open>20 log10\<close> of the energy less \<open>20 log10\<close> of the largest frame
  energy, both energies held at or above \<open>1e-5\<close>, and the value is floored at \<open>-80\<close>;
  a frame is silent exactly when this value is strictly below the threshold. No \<open>-100\<close>
  sentinel is involved: in an entirely silent buffer every frame has the value \<open>0\<close> and
  none is silent for a threshold at or below \<open>0\<close>. Both silence detectors are built on
  this mask.
\<close>

theorem silence_frames_db:
  assumes fl: "frame_length = py_int (0.02 * real_of_int sr)"
      and hop: "hop_length = py_int (0.01 * real_of_int sr)"
      and fr: "frame audio_data frame_length hop_length = Inr frames"
      and M: "M = map (\<lambda>e. max (20 * log 10 (max (1 / 100000) e)
                                - 20 * log 10 (max (1 / 100000) (Max (set (frame_energy frames)))))
                             (-80) < threshold_db)
                    (frame_energy frames)"
  shows "frame_energy frames = map (\<lambda>f. sum_list (map (\<lambda>x. x\<^sup>2) f)) frames \<and>
         frame_silence_mask audio_data frame_length hop_length threshold_db = Inr M \<and>
         ((\<forall>e\<in>set (frame_energy frames). e = 0) \<and> threshold_db \<le> 0 \<longrightarrow>
            M = replicate (length frames) False) \<and>
         NoiseReducer_detect_silence (NoiseReducer_init sr) audio_data (Some threshold_db) =
           Inr (expand_mask M 0 (nat hop_length) (nat frame_length) (length audio_data)
                  (replicate (length audio_data) False)) \<and>
         (threshold_db = -45 \<longrightarrow>
            NoiseReducer_detect_silence (NoiseReducer_init sr) audio_data None =
              Inr (expand_mask M 0 (nat hop_length) (nat frame_length) (length audio_data)
                     (replicate (length audio_data) False))) \<and>
         AudioEvaluator_detect_silence audio_data sr threshold_db =
           Inr (real (count_true M) / real (length M),
                real (longest_silence M 0 0) * real_of_int hop_length / real_of_int sr)"
proof -
  have mask: "frame_silence_mask audio_data frame_length hop_length threshold_db = Inr M"
    unfolding M using frame_silence_mask_closed [OF fr] by (simp add: db_rel_def)
  have zero: "M = replicate (length frames) False"
    if "\<forall>e\<in>set (frame_energy frames). e = 0" and "threshold_db \<le> 0"
  proof -
    have "frame_energy frames \<noteq> []"
      using frame_nonempty [OF fr] by (simp add: frame_energy_def)
    then have "Max (set (frame_energy frames)) \<in> set (frame_energy frames)"
      by (simp add: Max_in)
    then have "Max (set (frame_energy frames)) = 0" using that by blast
    then have "M = map (\<lambda>e. False) (frame_energy frames)"
      unfolding M using that by (intro map_cong) auto
    then show ?thesis by (simp add: map_replicate_const)
  qed
  have dflt: "NoiseReducer_detect_silence (NoiseReducer_init sr) audio_data None =
                Inr (expand_mask M 0 (nat hop_length) (nat frame_length) (length audio_data)
                       (replicate (length audio_data) False))"
    if "threshold_db = -45"
    using mask fl hop unfolding that
    by (simp add: NoiseReducer_detect_silence_def NoiseReducer_init_def Let_def)
  show ?thesis
    using mask zero fl hop dflt
    by (simp add: frame_energy_def NoiseReducer_detect_silence_def NoiseReducer_init_def
          AudioEvaluator_detect_silence_def Let_def)
qed

theorem silence_frames_db_witness:
  "frame [1, 0, 1 / 100] (py_int (0.02 * real_of_int 100)) (py_int (0.01 * real_of_int 100))
     = Inr [[1, 0], [0, 1 / 100]] \<and>
   frame_energy [[1, 0], [0, 1 / 100]] = [1, 1 / 10000] \<and>
   frame_silence_mask [1, 0, 1 / 100] (py_int (0.02 * real_of_int 100))
     (py_int (0.01 * real_of_int 100)) (-45) = Inr [False, True] \<and>
   NoiseReducer_detect_silence (NoiseReducer_init 100) [1, 0, 1 / 100] (Some (-45))
     = Inr [False, True, True] \<and>
   NoiseReducer_detect_silence (NoiseReducer_init 100) [1, 0, 1 / 100] None
     = Inr [False, True, True] \<and>
   AudioEvaluator_detect_silence [1, 0, 1 / 100] 100 (-45) = Inr (1 / 2, 1 / 100)"
proof -
  have fr: "frame [1, 0, 1 / 100] (py_int (0.02 * real_of_int 100))
              (py_int (0.01 * real_of_int 100)) = Inr [[1, 0], [0, 1 / 100]]"
    using frame_three by simp
  have e: "frame_energy [[1, 0], [0, 1 / 100]] = [1, 1 / 10000]"
    by (simp add: frame_energy_def power2_eq_square)
  show ?thesis
    using silence_frames_db [OF refl refl fr refl, of "-45"] fr e
    by (simp add: set_slice_true_def count_true_def)
qed

text \<open>
  The claim as the specification words it (\<open>10 log10 (energy / max_energy)\<close>, \<open>-100\<close> for
  a silent buffer) differs from the code on the buffer \<open>[1, 0, 0.01]\<close> at 100 Hz, whose
  second frame the code marks silent (\<open>-80\<close> dB) and the specification's formula does
  not (\<open>-40\<close> dB), and on the silent buffer \<open>[0, 0]\<close>, whose frame the code does not mark.
\<close>

theorem spec_silence_db_counterexample:
  "frame_silence_mask [1, 0, 1 / 100] (py_int (0.02 * 100)) (py_int (0.01 * 100)) (-45)
     = Inr [False, True] \<and>
   spec_frame_silence_mask [1, 0, 1 / 100] (py_int (0.02 * 100)) (py_int (0.01 * 100)) (-45)
     = Inr [False, False] \<and>
   frame_silence_mask [0, 0] (py_int (0.02 * 100)) (py_int (0.01 * 100)) (-45) = Inr [False] \<and>
   spec_frame_silence_mask [0, 0] (py_int (0.02 * 100)) (py_int (0.01 * 100)) (-45) = Inr [True]"
  by (simp add: code_mask_three spec_mask_three code_mask_zeros spec_mask_zeros)


section \<open>Buffers of near-zero amplitude\<close>

lemma evaluate_audio_zero_buffer:
  "evaluate_audio AudioEvaluator_init [0, 0] 100 =
     Inr (\<lparr>rms = 0, rms_db = -100, peak = 0, peak_db = -100, cv = 1, snr = 100,
            non_speech_ratio = 0, max_silence = 0\<rparr>, False)"
  by (simp add: evaluator_defs Let_def)

lemma calculate_peak_Inr: "audio_data \<noteq> [] \<Longrightarrow> \<exists>p. calculate_peak audio_data = Inr p"
  by (simp add: calculate_peak_def np_max_def)

lemma evaluate_audio_Inr:
  assumes "audio_data \<noteq> []"
      and "AudioEvaluator_detect_silence audio_data sr (-45) = Inr (nsr, ms)"
  shows "\<exists>m c. evaluate_audio self audio_data sr = Inr (m, c) \<and>
               non_speech_ratio m = nsr \<and> max_silence m = ms"
  using assms
  by (auto simp: evaluate_audio_def Let_def calculate_peak_def np_max_def split: prod.splits)


text \<open>
  Claim C6, as the code has it. For a buffer whose samples all have amplitude at most
  \<open>1e-6\<close>, holding at least one frame, at a sample rate from 100 Hz to 500 MHz, every
  frame energy stays at or below the floor \<open>1e-5\<close>, so every frame has the value \<open>0\<close> dB
  and none is silent: the silence detection of \<open>evaluate_audio\<close> reports
  \<open>non_speech_ratio = 0\<close> and \<open>max_silence = 0\<close>.
\<close>

theorem quiet_buffer_no_silence_reported:
  assumes "\<forall>x\<in>set audio_data. \<bar>x\<bar> \<le> 1 / 1000000"
      and "100 \<le> sr" and "sr \<le> 500000000"
      and "py_int (0.02 * real_of_int sr) \<le> int (length audio_data)"
  shows "AudioEvaluator_detect_silence audio_data sr (-45) = Inr (0, 0) \<and>
         (\<exists>m c. evaluate_audio self audio_data sr = Inr (m, c) \<and>
                 non_speech_ratio m = 0 \<and> max_silence m = 0)"
proof -
  have ds: "AudioEvaluator_detect_silence audio_data sr (-45) = Inr (0, 0)"
    using assms by (rule quiet_AudioEvaluator_detect_silence)
  have "2 \<le> py_int (0.02 * real_of_int sr)"
    using assms(2) py_int_frame_length [of sr] by simp
  then have "audio_data \<noteq> []" using assms(4) by auto
  then show ?thesis using ds evaluate_audio_Inr by blast
qed

theorem quiet_buffer_no_silence_reported_witness:
  "AudioEvaluator_detect_silence (replicate 16000 0) 16000 (-45) = Inr (0, 0) \<and>
   (\<exists>m c. evaluate_audio AudioEvaluator_init (replicate 16000 0) 16000 = Inr (m, c) \<and>
           non_speech_ratio m = 0 \<and> max_silence m = 0)"
proof -
  have q: "\<forall>x\<in>set (replicate 16000 (0::real)). \<bar>x\<bar> \<le> 1 / 1000000" by simp
  have l: "py_int (0.02 * real_of_int 16000) \<le> int (length (replicate 16000 (0::real)))"
    by simp
  show ?thesis
    using quiet_buffer_no_silence_reported [OF q _ _ l, of AudioEvaluator_init] by simp
qed


text \<open>
  The claim as stated asks for \<open>non_speech_ratio = 1\<close> and a longest silence of the
  buffer's duration. On the silent buffer \<open>[0, 0]\<close> at 100 Hz, and on one second of
  zeros at 16 kHz, the code reports \<open>0\<close> for both.
\<close>

theorem silent_buffer_ratio_counterexample:
  "AudioEvaluator_detect_silence [0, 0] 100 (-45) = Inr (0, 0) \<and>
   AudioEvaluator_detect_silence [0, 0] 100 (-45) \<noteq> Inr (1, real (length [0, 0 :: real]) / 100) \<and>
   evaluate_audio AudioEvaluator_init [0, 0] 100 =
     Inr (\<lparr>rms = 0, rms_db = -100, peak = 0, peak_db = -100, cv = 1, snr = 100,
            non_speech_ratio = 0, max_silence = 0\<rparr>, False) \<and>
   AudioEvaluator_detect_silence (replicate 16000 0) 16000 (-45) = Inr (0, 0)"
proof -
  have a: "AudioEvaluator_detect_silence [0, 0] 100 (-45) = Inr (0, 0)"
    by (rule quiet_AudioEvaluator_detect_silence) simp_all
  have b: "AudioEvaluator_detect_silence (replicate 16000 0) 16000 (-45) = Inr (0, 0)"
    by (rule quiet_AudioEvaluator_detect_silence) simp_all
  show ?thesis using a b evaluate_audio_zero_buffer by simp
qed

section \<open>Shapes and errors of the library results\<close>

lemma length_set_slice_true [simp]: "length (set_slice_true m a b) = length m"
  by (simp add: set_slice_true_def)

lemma length_expand_mask [simp]: "length (expand_mask fm i hop fl n m) = length m"
  by (induction fm arbitrary: i m) (simp_all add: Let_def)

lemma NoiseReducer_detect_silence_length:
  "NoiseReducer_detect_silence self audio_data thr = Inr silence_mask \<Longrightarrow>
   length silence_mask = length audio_data"
  by (auto simp: NoiseReducer_detect_silence_def Let_def split: sum.splits)

lemma frame_silence_mask_Inl:
  "frame_silence_mask audio_data fl hop thr = Inl e \<longleftrightarrow>
     (int (length audio_data) < fl \<or> hop < 1) \<and> e = ParameterError"
proof (cases "frame audio_data fl hop")
  case (Inl e')
  then have "frame_silence_mask audio_data fl hop thr = Inl e'"
    by (simp add: frame_silence_mask_def)
  then show ?thesis using Inl by (auto simp: frame_Inl)
next
  case (Inr frames)
  then show ?thesis
    using frame_silence_mask_closed [OF Inr, of thr] by (auto simp: frame_Inr)
qed

lemma NoiseReducer_detect_silence_Inl:
  "NoiseReducer_detect_silence self audio_data thr = Inl e \<longleftrightarrow>
     (int (length audio_data) < py_int (0.02 * real_of_int (sample_rate self)) \<or>
      sample_rate self < 100) \<and> e = ParameterError"
proof -
  let ?fl = "py_int (0.02 * real_of_int (sample_rate self))"
  let ?hop = "py_int (0.01 * real_of_int (sample_rate self))"
  let ?t = "case thr of None \<Rightarrow> silence_threshold_db self | Some t \<Rightarrow> t"
  have hop: "?hop < 1 \<longleftrightarrow> sample_rate self < 100"
    using py_int_hop_ge1 [of "sample_rate self"] by linarith
  have "NoiseReducer_detect_silence self audio_data thr = Inl e \<longleftrightarrow>
          frame_silence_mask audio_data ?fl ?hop ?t = Inl e"
    by (simp add: NoiseReducer_detect_silence_def Let_def split: sum.splits)
  then show ?thesis
    unfolding frame_silence_mask_Inl hop by simp
qed

lemma NoiseReducer_detect_silence_Inr:
  assumes "100 \<le> sample_rate self"
      and "py_int (0.02 * real_of_int (sample_rate self)) \<le> int (length audio_data)"
  shows "\<exists>m. NoiseReducer_detect_silence self audio_data thr = Inr m"
proof (cases "NoiseReducer_detect_silence self audio_data thr")
  case (Inl e)
  then show ?thesis using assms by (simp add: NoiseReducer_detect_silence_Inl)
next
  case (Inr m)
  then show ?thesis by blast
qed

lemma length_stft [simp]: "length (stft be y n_fft hop) = 1 + n_fft div 2"
  by (simp add: stft_def)

lemma length_stft_row:
  "k < 1 + n_fft div 2 \<Longrightarrow> length (stft be y n_fft hop ! k) = 1 + length y div hop"
  by (simp add: stft_def del: upt_Suc)

lemma length_fix_length [simp]: "length (fix_length data n) = n"
  by (simp add: fix_length_def)

lemma length_istft [simp]: "length (istft be D hop n) = n"
  by (simp add: istft_def)

lemma filtfilt_length: "filtfilt be b a x = Inr y \<Longrightarrow> length y = length x"
  by (auto simp: filtfilt_def split: if_splits)

lemma length_convolve_full [simp]: "length (convolve_full a v) = length a + length v - 1"
  by (simp add: convolve_full_def)

lemma same_window_fits:
  fixes la lv :: nat
  assumes "0 < la" and "0 < lv"
  shows "max la lv \<le> la + lv - 1 - (min la lv - 1) div 2"
proof -
  have "(min la lv - 1) div 2 \<le> min la lv - 1" by simp
  then show ?thesis using assms by (cases "la \<le> lv") (simp_all add: max_def min_def)
qed

lemma np_convolve_same_length:
  assumes "np_convolve_same a v = Inr r"
  shows "length r = max (length a) (length v)"
proof -
  let ?c = "(min (length a) (length v) - 1) div 2"
  have ne: "a \<noteq> []" "v \<noteq> []" using assms by (auto simp: np_convolve_same_def split: if_splits)
  then have "0 < length a" "0 < length v" by auto
  then have fits: "max (length a) (length v) \<le> length a + length v - 1 - ?c"
    by (rule same_window_fits)
  have "r = take (max (length a) (length v)) (drop ?c (convolve_full a v))"
    using assms ne by (simp add: np_convolve_same_def)
  then have "length r = min (max (length a) (length v)) (length a + length v - 1 - ?c)"
    by (simp del: One_nat_def add: min.commute)
  then show ?thesis using fits by (simp only: min_absorb1)
qed

lemma np_convolve_same_Inr:
  "a \<noteq> [] \<Longrightarrow> v \<noteq> [] \<Longrightarrow> \<exists>r. np_convolve_same a v = Inr r"
  by (simp add: np_convolve_same_def)

lemma length_ricker [simp]: "length (ricker be points a) = points"
  by (simp add: ricker_def)

lemma cwt_rows:
  assumes "data \<noteq> []" and "\<forall>w\<in>set widths. 1 \<le> w"
  shows "\<exists>coeffs. cwt data (ricker be) widths = Inr coeffs \<and> length coeffs = length widths \<and>
                  (\<forall>row\<in>set coeffs. length row = length data)"
  using assms(2)
proof (induction widths)
  case Nil
  then show ?case by simp
next
  case (Cons w ws)
  then obtain coeffs where c: "cwt data (ricker be) ws = Inr coeffs"
      "length coeffs = length ws" "\<forall>row\<in>set coeffs. length row = length data"
    by auto
  let ?N = "min (10 * w) (length data)"
  have N: "1 \<le> ?N" "?N \<le> length data" using Cons.prems assms(1) by (auto simp: Suc_leI)
  then have "rev (ricker be ?N (real w)) \<noteq> []" by (metis length_ricker length_rev list.size(3) not_one_le_zero)
  then obtain row where r: "np_convolve_same data (rev (ricker be ?N (real w))) = Inr row"
    using np_convolve_same_Inr [OF assms(1)] by blast
  have "length row = length data"
    using np_convolve_same_length [OF r] N by simp
  then show ?case using c r by (simp add: Let_def)
qed

lemma cwt_empty: "widths \<noteq> [] \<Longrightarrow> cwt [] wavelet widths = Inl ValueError"
  by (cases widths) (simp_all add: np_convolve_same_def)

lemma conv_row4:
  assumes "1 \<le> w"
  shows "np_convolve_same [a, b, c, d]
           (rev (ricker example_backend (min (10 * w) (length [a, b, c, d])) (real w)))
         = Inr [a, b, c, d]"
proof -
  have "min (10 * w) (length [a, b, c, d]) = 4" using assms by simp
  then show ?thesis
    by (simp add: ricker_def example_backend_def np_convolve_same_def convolve_full_def upt_rec)
qed

lemma cwt_example4:
  "\<forall>w\<in>set ws. 1 \<le> w \<Longrightarrow>
   cwt [a, b, c, d] (ricker example_backend) ws = Inr (replicate (length ws) [a, b, c, d])"
proof (induction ws)
  case Nil
  then show ?case by simp
next
  case (Cons w ws)
  then show ?case
    using conv_row4 [of w a b c d]
    by (simp add: Let_def del: length_Cons min.absorb4 min.absorb3)
qed

lemma cwt_example: "cwt [a, b, c, d] (ricker example_backend) [1..<31] = Inr (replicate 30 [a, b, c, d])"
  using cwt_example4 [of "[1..<31]" a b c d] by simp

section \<open>The compliance verdict\<close>

lemma AudioEvaluator_detect_silence_Inr:
  assumes "100 \<le> sr" and "py_int (0.02 * real_of_int sr) \<le> int (length audio_data)"
  shows "\<exists>p. AudioEvaluator_detect_silence audio_data sr threshold_db = Inr p"
proof -
  let ?fl = "py_int (0.02 * real_of_int sr)" and ?hop = "py_int (0.01 * real_of_int sr)"
  have hop: "1 \<le> ?hop" using assms(1) py_int_hop_ge1 by blast
  obtain frames where fr: "frame audio_data ?fl ?hop = Inr frames"
    using assms(2) hop by (auto simp: frame_Inr)
  show ?thesis
    unfolding AudioEvaluator_detect_silence_def Let_def frame_silence_mask_closed [OF fr]
    by simp
qed

lemma evaluate_audio_verdict:
  assumes "evaluate_audio AudioEvaluator_init audio_data sr = Inr (m, compliant)"
  shows "(compliant \<longleftrightarrow>
            (rms_db m \<ge> -30 \<and> peak_db m \<le> 0 \<and> cv m \<le> 0.5 \<and> snr m \<ge> 20 \<and>
             non_speech_ratio m \<le> 0.3 \<and> max_silence m \<le> 1.0)) \<and>
         (snr m = 20 \<longrightarrow>
            (compliant \<longleftrightarrow>
               (rms_db m \<ge> -30 \<and> peak_db m \<le> 0 \<and> cv m \<le> 0.5 \<and>
                non_speech_ratio m \<le> 0.3 \<and> max_silence m \<le> 1.0))) \<and>
         (snr m = 19.999 \<longrightarrow> \<not> compliant) \<and>
         (rms m, rms_db m) = calculate_rms audio_data \<and>
         calculate_peak audio_data = Inr (peak m, peak_db m) \<and>
         cv m = calculate_cv audio_data \<and>
         snr m = estimate_snr audio_data \<and>
         AudioEvaluator_detect_silence audio_data sr (-45) =
           Inr (non_speech_ratio m, max_silence m)"
  using assms
  by (auto simp: evaluate_audio_def AudioEvaluator_init_def Let_def
           split: prod.splits sum.splits)

text \<open>
  Claim C2. \<open>evaluate_audio\<close> returns metrics and a verdict for every buffer of at
  least one frame at a sample rate of at least 100 Hz. Whenever it returns, with the
  default standards, metrics \<open>m\<close> and a verdict, the verdict is exactly the conjunction
  of the six non-strict comparisons of the returned metrics with the thresholds \<open>-30\<close>,
  \<open>0\<close>, \<open>0.5\<close>, \<open>20\<close>, \<open>0.3\<close> and \<open>1.0\<close>. With \<open>snr = 20\<close> the SNR criterion holds
  and the verdict is the conjunction of the other five; with \<open>snr = 19.999\<close> the verdict
  is negative whatever the other metrics are. The metrics compared are the ones the
  five metric functions computed on the buffer.
\<close>

theorem evaluate_audio_compliant:
  "(100 \<le> sr \<and> py_int (0.02 * real_of_int sr) \<le> int (length audio_data) \<longrightarrow>
      (\<exists>m' c. evaluate_audio AudioEvaluator_init audio_data sr = Inr (m', c))) \<and>
   (evaluate_audio AudioEvaluator_init audio_data sr = Inr (m, compliant) \<longrightarrow>
      (compliant \<longleftrightarrow>
         (rms_db m \<ge> -30 \<and> peak_db m \<le> 0 \<and> cv m \<le> 0.5 \<and> snr m \<ge> 20 \<and>
          non_speech_ratio m \<le> 0.3 \<and> max_silence m \<le> 1.0)) \<and>
      (snr m = 20 \<longrightarrow>
         (compliant \<longleftrightarrow>
            (rms_db m \<ge> -30 \<and> peak_db m \<le> 0 \<and> cv m \<le> 0.5 \<and>
             non_speech_ratio m \<le> 0.3 \<and> max_silence m \<le> 1.0))) \<and>
      (snr m = 19.999 \<longrightarrow> \<not> compliant) \<and>
      (rms m, rms_db m) = calculate_rms audio_data \<and>
      calculate_peak audio_data = Inr (peak m, peak_db m) \<and>
      cv m = calculate_cv audio_data \<and>
      snr m = estimate_snr audio_data \<and>
      AudioEvaluator_detect_silence audio_data sr (-45) =
        Inr (non_speech_ratio m, max_silence m))"
proof (rule conjI; rule impI)
  assume "100 \<le> sr \<and> py_int (0.02 * real_of_int sr) \<le> int (length audio_data)"
  then have sr: "100 \<le> sr" and len: "py_int (0.02 * real_of_int sr) \<le> int (length audio_data)"
    by simp_all
  have "2 \<le> py_int (0.02 * real_of_int sr)"
    using sr py_int_frame_length [of sr] by simp
  then have ne: "audio_data \<noteq> []" using len by auto
  obtain nsr ms where "AudioEvaluator_detect_silence audio_data sr (-45) = Inr (nsr, ms)"
    using AudioEvaluator_detect_silence_Inr [OF sr len, of "-45"] by fastforce
  from evaluate_audio_Inr [OF ne this, of AudioEvaluator_init]
  show "\<exists>m' c. evaluate_audio AudioEvaluator_init audio_data sr = Inr (m', c)" by blast
next
  assume "evaluate_audio AudioEvaluator_init audio_data sr = Inr (m, compliant)"
  then show "(compliant \<longleftrightarrow>
         (rms_db m \<ge> -30 \<and> peak_db m \<le> 0 \<and> cv m \<le> 0.5 \<and> snr m \<ge> 20 \<and>
          non_speech_ratio m \<le> 0.3 \<and> max_silence m \<le> 1.0)) \<and>
      (snr m = 20 \<longrightarrow>
         (compliant \<longleftrightarrow>
            (rms_db m \<ge> -30 \<and> peak_db m \<le> 0 \<and> cv m \<le> 0.5 \<and>
             non_speech_ratio m \<le> 0.3 \<and> max_silence m \<le> 1.0))) \<and>
      (snr m = 19.999 \<longrightarrow> \<not> compliant) \<and>
      (rms m, rms_db m) = calculate_rms audio_data \<and>
      calculate_peak audio_data = Inr (peak m, peak_db m) \<and>
      cv m = calculate_cv audio_data \<and>
      snr m = estimate_snr audio_data \<and>
      AudioEvaluator_detect_silence audio_data sr (-45) =
        Inr (non_speech_ratio m, max_silence m)"
    by (rule evaluate_audio_verdict)
qed

theorem evaluate_audio_compliant_witness:
  "100 \<le> (100::int) \<and> py_int (0.02 * real_of_int 100) \<le> int (length [1, 1 :: real]) \<and>
   evaluate_audio AudioEvaluator_init [1, 1] 100 =
     Inr (\<lparr>rms = 1, rms_db = 0, peak = 1, peak_db = 0, cv = 0, snr = 100,
            non_speech_ratio = 0, max_silence = 0\<rparr>, True) \<and>
   calculate_peak [1, 1] = Inr (1, 0) \<and>
   estimate_snr [1, 1] = 100 \<and>
   AudioEvaluator_detect_silence [1, 1] 100 (-45) = Inr (0, 0)"
  using evaluate_audio_compliant [of 100 "[1, 1]" "\<lparr>rms = 1, rms_db = 0, peak = 1, peak_db = 0,
      cv = 0, snr = 100, non_speech_ratio = 0, max_silence = 0\<rparr>" True]
    evaluate_audio_unit_buffer
  by simp

section \<open>The spectral subtraction\<close>

lemma np_mean_nonneg: "\<forall>x\<in>set xs. 0 \<le> x \<Longrightarrow> 0 \<le> np_mean xs"
  by (simp add: np_mean_def sum_list_nonneg)

lemma length_magnitude [simp]: "length (magnitude D) = length D"
  by (simp add: magnitude_def)

lemma magnitude_row: "k < length D \<Longrightarrow> magnitude D ! k = map cmod (D ! k)"
  by (simp add: magnitude_def)

lemma length_noise_profile [simp]:
  "length (noise_profile be noise_sample n_fft hop) = 1 + n_fft div 2"
  by (simp add: noise_profile_def Let_def)

lemma noise_profile_nonneg:
  assumes "k < 1 + n_fft div 2"
  shows "0 \<le> noise_profile be noise_sample n_fft hop ! k"
proof -
  have "noise_profile be noise_sample n_fft hop ! k
          = np_mean (map cmod (stft be noise_sample n_fft hop ! k))"
    using assms by (simp add: noise_profile_def Let_def magnitude_def del: upt_Suc)
  then show ?thesis by (simp add: np_mean_nonneg)
qed

lemma length_spectral_subtract [simp]:
  "length (spectral_subtract stft_mag noise_spec) = min (length stft_mag) (length noise_spec)"
  by (simp add: spectral_subtract_def)

lemma spectral_subtract_row:
  assumes "k < length stft_mag" and "k < length noise_spec"
  shows "spectral_subtract stft_mag noise_spec ! k
           = map (\<lambda>m. max (m - noise_spec ! k) (0.01 * m)) (stft_mag ! k)"
  using assms by (simp add: spectral_subtract_def)

lemma bool_index_Inr:
  "length bs = length xs \<Longrightarrow> bool_index xs bs = Inr (map fst (filter snd (zip xs bs)))"
  by (simp add: bool_index_def)

lemma reduce_noise_standard_subtraction:
  assumes ds: "NoiseReducer_detect_silence self audio_data None = Inr silence_mask"
      and cnt: "count_true silence_mask > 0"
      and bi: "bool_index audio_data silence_mask = Inr noise_sample"
  shows "reduce_noise_standard be self audio_data =
           Inr (istft be
                  (with_phase
                     (spectral_subtract (magnitude (stft be audio_data 2048 512))
                        (noise_profile be noise_sample 2048 512))
                     (stft be audio_data 2048 512))
                  512 (length audio_data))"
  using assms by (simp add: reduce_noise_standard_def Let_def)

text \<open>
  Claim C3. In the spectral-subtraction branch of \<open>reduce_noise_standard\<close> (a silence
  mask with a marked sample, whose samples are the noise sample), the output is the
  inverse transform of the subtracted magnitudes with the original phase, and for every
  frequency bin \<open>k\<close> and frame \<open>t\<close> of the 1025 by \<open>1 + len div 512\<close> spectrum the
  subtracted magnitude is \<open>max (magnitude - noise_profile, 0.01 * magnitude)\<close>; it is
  at least \<open>0.01\<close> of the original magnitude and, the noise profile being a mean of
  magnitudes and so non-negative, at most the original magnitude.
\<close>

theorem spectral_subtraction_floor:
  assumes ds: "NoiseReducer_detect_silence self audio_data None = Inr silence_mask"
      and cnt: "count_true silence_mask > 0"
      and bi: "bool_index audio_data silence_mask = Inr noise_sample"
      and k: "k < 1025"
      and t: "t < 1 + length audio_data div 512"
  shows "(let D = stft be audio_data 2048 512;
              stft_mag = magnitude D;
              noise_spec = noise_profile be noise_sample 2048 512;
              masked_stft_mag = spectral_subtract stft_mag noise_spec
          in reduce_noise_standard be self audio_data =
               Inr (istft be (with_phase masked_stft_mag D) 512 (length audio_data)) \<and>
             length stft_mag = 1025 \<and> length noise_spec = 1025 \<and>
             length masked_stft_mag = 1025 \<and>
             length (stft_mag ! k) = 1 + length audio_data div 512 \<and>
             length (masked_stft_mag ! k) = 1 + length audio_data div 512 \<and>
             0 \<le> noise_spec ! k \<and>
             masked_stft_mag ! k ! t =
               max (stft_mag ! k ! t - noise_spec ! k) (0.01 * stft_mag ! k ! t) \<and>
             0.01 * stft_mag ! k ! t \<le> masked_stft_mag ! k ! t \<and>
             masked_stft_mag ! k ! t \<le> stft_mag ! k ! t)"
proof -
  define D where "D = stft be audio_data 2048 512"
  define stft_mag where "stft_mag = magnitude D"
  define noise_spec where "noise_spec = noise_profile be noise_sample 2048 512"
  define masked where "masked = spectral_subtract stft_mag noise_spec"
  have run: "reduce_noise_standard be self audio_data =
               Inr (istft be (with_phase masked D) 512 (length audio_data))"
    unfolding masked_def stft_mag_def noise_spec_def D_def
    by (rule reduce_noise_standard_subtraction [OF ds cnt bi])
  have l1: "length stft_mag = 1025" by (simp add: stft_mag_def D_def)
  have l2: "length noise_spec = 1025" by (simp add: noise_spec_def)
  have l3: "length masked = 1025" by (simp add: masked_def l1 l2)
  have row: "stft_mag ! k = map cmod (D ! k)"
    using k by (simp add: stft_mag_def magnitude_row D_def)
  have lrow: "length (stft_mag ! k) = 1 + length audio_data div 512"
    using k by (simp add: row D_def length_stft_row)
  have mrow: "masked ! k = map (\<lambda>m. max (m - noise_spec ! k) (0.01 * m)) (stft_mag ! k)"
    using k l1 l2 by (simp add: masked_def spectral_subtract_row)
  have n0: "0 \<le> noise_spec ! k"
    using k by (simp add: noise_spec_def noise_profile_nonneg)
  have m0: "0 \<le> stft_mag ! k ! t"
    using t lrow by (simp add: row)
  have val: "masked ! k ! t = max (stft_mag ! k ! t - noise_spec ! k) (0.01 * stft_mag ! k ! t)"
    using t lrow by (simp add: mrow)
  have lo: "0.01 * stft_mag ! k ! t \<le> masked ! k ! t" unfolding val by simp
  have hi: "masked ! k ! t \<le> stft_mag ! k ! t" unfolding val using n0 m0 by simp
  have lm: "length (masked ! k) = 1 + length audio_data div 512"
    using lrow by (simp add: mrow)
  have "reduce_noise_standard be self audio_data =
           Inr (istft be (with_phase masked D) 512 (length audio_data)) \<and>
        length stft_mag = 1025 \<and> length noise_spec = 1025 \<and> length masked = 1025 \<and>
        length (stft_mag ! k) = 1 + length audio_data div 512 \<and>
        length (masked ! k) = 1 + length audio_data div 512 \<and>
        0 \<le> noise_spec ! k \<and>
        masked ! k ! t = max (stft_mag ! k ! t - noise_spec ! k) (0.01 * stft_mag ! k ! t) \<and>
        0.01 * stft_mag ! k ! t \<le> masked ! k ! t \<and>
        masked ! k ! t \<le> stft_mag ! k ! t"
    using run l1 l2 l3 lrow lm n0 val lo hi by (intro conjI)
  then show ?thesis
    unfolding Let_def masked_def noise_spec_def stft_mag_def D_def .
qed

lemma stft_row:
  "k < 1 + n_fft div 2 \<Longrightarrow>
   stft be y n_fft hop ! k = map (\<lambda>t. stft_value be y n_fft hop k t) [0..<1 + length y div hop]"
  by (simp add: stft_def del: upt_Suc)

lemma stft_nth:
  "k < 1 + n_fft div 2 \<Longrightarrow> t < 1 + length y div hop \<Longrightarrow>
   stft be y n_fft hop ! k ! t = stft_value be y n_fft hop k t"
  by (simp add: stft_def del: upt_Suc)

lemma magnitude_stft_nth:
  assumes "k < 1 + n_fft div 2" and "t < 1 + length y div hop"
  shows "magnitude (stft be y n_fft hop) ! k ! t = cmod (stft_value be y n_fft hop k t)"
proof -
  have "magnitude (stft be y n_fft hop) ! k = map cmod (stft be y n_fft hop ! k)"
    using assms(1) by (simp add: magnitude_row)
  moreover have "length (stft be y n_fft hop ! k) = 1 + length y div hop"
    using assms(1) by (rule length_stft_row)
  ultimately show ?thesis using assms by (simp add: stft_nth)
qed

lemma example_backend_simps [simp]:
  "stft_value example_backend y n_fft hop k t = complex_of_real (sum_list y)"
  "istft_signal example_backend D hop = []"
  "butter example_backend N Wn = ([1], [1])"
  "filtfilt_value example_backend b a x n = x ! n"
  "ricker_value example_backend points w i = (if i = points - 1 - (points - 1) div 2 then 1 else 0)"
  by (simp_all add: example_backend_def)

lemma frame_example: "frame [1, 0, 0, 0] 2 1 = Inr [[1, 0], [0, 0], [0, 0]]"
  by (simp add: frame_def upt_rec)

lemma frame_mask_example: "frame_silence_mask [1, 0, 0, 0] 2 1 (-45) = Inr [False, True, True]"
  by (simp add: frame_silence_mask_closed [OF frame_example] frame_energy_def db_rel_def)

lemma detect_silence_example:
  "NoiseReducer_detect_silence (NoiseReducer_init 100) [1, 0, 0, 0] None
     = Inr [False, True, True, True]"
  by (simp add: NoiseReducer_detect_silence_def NoiseReducer_init_def frame_mask_example
        set_slice_true_def upt_rec)

lemma istft_example [simp]: "istft example_backend D hop n = replicate n 0"
  by (simp add: istft_def fix_length_def)

theorem spectral_subtraction_floor_witness:
  "NoiseReducer_detect_silence (NoiseReducer_init 100) [1, 0, 0, 0] None
     = Inr [False, True, True, True] \<and>
   0 < count_true [False, True, True, True] \<and>
   bool_index [1, 0, 0, 0 :: real] [False, True, True, True] = Inr [0, 0, 0] \<and>
   reduce_noise_standard example_backend (NoiseReducer_init 100) [1, 0, 0, 0]
     = Inr [0, 0, 0, 0] \<and>
   magnitude (stft example_backend [1, 0, 0, 0] 2048 512) ! 0 ! 0 = 1 \<and>
   noise_profile example_backend [0, 0, 0] 2048 512 ! 0 = 0 \<and>
   spectral_subtract (magnitude (stft example_backend [1, 0, 0, 0] 2048 512))
     (noise_profile example_backend [0, 0, 0] 2048 512) ! 0 ! 0 = 1"
proof -
  have cnt: "0 < count_true [False, True, True, True]" by (simp add: count_true_def)
  have bi: "bool_index [1, 0, 0, 0 :: real] [False, True, True, True] = Inr [0, 0, 0]"
    by (simp add: bool_index_def)
  have mag: "magnitude (stft example_backend [1, 0, 0, 0] 2048 512) ! 0 ! 0 = 1"
    by (simp add: magnitude_stft_nth)
  have "stft example_backend [0, 0, 0] 2048 512 ! 0 = [0]"
    by (simp add: stft_row)
  then have ns: "noise_profile example_backend [0, 0, 0] 2048 512 ! 0 = 0"
    by (simp add: noise_profile_def Let_def magnitude_row np_mean_def del: upt_Suc)
  have k0: "(0::nat) < 1025" and t0: "(0::nat) < 1 + length [1, 0, 0, 0 :: real] div 512"
    by simp_all
  note th = spectral_subtraction_floor [OF detect_silence_example cnt bi k0 t0,
      of example_backend, unfolded Let_def]
  have run: "reduce_noise_standard example_backend (NoiseReducer_init 100) [1, 0, 0, 0]
               = Inr [0, 0, 0, 0]"
    using th [THEN conjunct1] by simp
  show ?thesis
    using detect_silence_example cnt bi run mag ns th by simp
qed

section \<open>The wavelet threshold\<close>

lemma cwt_Inr_nonempty:
  assumes "cwt audio_data wavelet widths = Inr coeffs" and "widths \<noteq> []"
  shows "audio_data \<noteq> []"
  using assms cwt_empty by fastforce

lemma cwt_shape:
  assumes c: "cwt audio_data (ricker be) [1..<31] = Inr coeffs"
  shows "length coeffs = 30 \<and> (\<forall>row\<in>set coeffs. length row = length audio_data)"
proof -
  have ne: "audio_data \<noteq> []" using c by (rule cwt_Inr_nonempty) simp
  have "\<forall>w\<in>set [1..<31]. 1 \<le> w" by simp
  from cwt_rows [OF ne this, of be] c show ?thesis by simp
qed

lemma length_apply_threshold [simp]: "length (apply_threshold coeffs thr) = length coeffs"
  by (simp add: apply_threshold_def)

lemma apply_threshold_row:
  "i < length coeffs \<Longrightarrow>
   apply_threshold coeffs thr ! i = map (\<lambda>c. c * (if \<bar>c\<bar> > thr then 1 else 0)) (coeffs ! i)"
  by (simp add: apply_threshold_def)

lemma apply_threshold_rows_length:
  "\<forall>row\<in>set coeffs. length row = n \<Longrightarrow> \<forall>row\<in>set (apply_threshold coeffs thr). length row = n"
  by (auto simp: apply_threshold_def)

lemma mean_axis0_length:
  assumes "M \<noteq> []" and "\<forall>row\<in>set M. length row = n"
  shows "length (mean_axis0 M) = n"
proof -
  have "transpose M = map (\<lambda>i. map (\<lambda>j. M ! j ! i) [0..<length M]) [0..<n]"
    by (rule transpose_rectangle) (use assms in auto)
  then show ?thesis by (simp add: mean_axis0_def)
qed

lemma wavelet_reconstruct_Inr:
  assumes "audio_data \<noteq> []"
  shows "\<exists>denoised. wavelet_reconstruct be self audio_data = Inr denoised"
proof -
  have "\<forall>w\<in>set [1..<31]. 1 \<le> w" by simp
  from cwt_rows [OF assms this, of be] obtain coeffs where
    c: "cwt audio_data (ricker be) [1..<31] = Inr coeffs" and
    shape: "length coeffs = length [1..<31::nat]" "\<forall>row\<in>set coeffs. length row = length audio_data"
    by blast
  let ?T = "apply_threshold coeffs (wavelet_threshold self coeffs)"
  have "?T \<noteq> []" using shape(1) by (simp add: apply_threshold_def) auto
  moreover have "\<forall>row\<in>set ?T. length row = length audio_data"
    using shape(2) by (rule apply_threshold_rows_length)
  ultimately have "length (mean_axis0 ?T) = length audio_data"
    by (rule mean_axis0_length)
  then have "mean_axis0 ?T \<noteq> []" using assms by auto
  then show ?thesis
    using c by (simp add: wavelet_reconstruct_def Let_def np_max_def)
qed

text \<open>
  Claim C10. With the coefficient matrix of \<open>reduce_noise_wavelet\<close> (30 scales by the
  length of the buffer) and the threshold \<open>2.5 * median(|coefficients|) / 0.6745\<close>, every
  thresholded coefficient is exactly zero when its absolute value is at or below the
  threshold and exactly the original coefficient when it is strictly above: nothing is
  attenuated in between. The reconstruction is computed from these thresholded values.
\<close>

theorem wavelet_hard_threshold:
  assumes c: "cwt audio_data (ricker be) [1..<31] = Inr coeffs"
      and thr: "threshold = wavelet_threshold self coeffs"
      and i: "i < length coeffs"
      and j: "j < length (coeffs ! i)"
  shows "audio_data \<noteq> [] \<and>
         (\<exists>denoised. wavelet_reconstruct be self audio_data = Inr denoised) \<and>
         threshold = wavelet_threshold_mult self * np_median (concat (map (map abs) coeffs)) / 0.6745 \<and>
         wavelet_threshold (NoiseReducer_init sr) coeffs =
           2.5 * np_median (concat (map (map abs) coeffs)) / 0.6745 \<and>
         length coeffs = 30 \<and> length (coeffs ! i) = length audio_data \<and>
         length (apply_threshold coeffs threshold) = 30 \<and>
         length (apply_threshold coeffs threshold ! i) = length audio_data \<and>
         apply_threshold coeffs threshold ! i ! j =
           (if \<bar>coeffs ! i ! j\<bar> \<le> threshold then 0 else coeffs ! i ! j) \<and>
         wavelet_reconstruct be self audio_data =
           (case np_max (map abs (mean_axis0 (apply_threshold coeffs threshold))) of
              Inl e \<Rightarrow> Inl e
            | Inr mx \<Rightarrow>
                Inr (if mx > 0
                     then map (\<lambda>v. v / mx) (mean_axis0 (apply_threshold coeffs threshold))
                     else mean_axis0 (apply_threshold coeffs threshold)))"
proof -
  have shape: "length coeffs = 30" "\<forall>row\<in>set coeffs. length row = length audio_data"
    using cwt_shape [OF c] by simp_all
  have li: "length (coeffs ! i) = length audio_data"
    using shape(2) i by simp
  have val: "apply_threshold coeffs threshold ! i ! j =
               (if \<bar>coeffs ! i ! j\<bar> \<le> threshold then 0 else coeffs ! i ! j)"
    using i j by (simp add: apply_threshold_row)
  have rec: "wavelet_reconstruct be self audio_data =
           (case np_max (map abs (mean_axis0 (apply_threshold coeffs threshold))) of
              Inl e \<Rightarrow> Inl e
            | Inr mx \<Rightarrow>
                Inr (if mx > 0
                     then map (\<lambda>v. v / mx) (mean_axis0 (apply_threshold coeffs threshold))
                     else mean_axis0 (apply_threshold coeffs threshold)))"
    unfolding thr using c by (simp add: wavelet_reconstruct_def Let_def)
  have t1: "threshold = wavelet_threshold_mult self * np_median (concat (map (map abs) coeffs)) / 0.6745"
    unfolding thr wavelet_threshold_def ..
  have t2: "wavelet_threshold (NoiseReducer_init sr) coeffs =
              2.5 * np_median (concat (map (map abs) coeffs)) / 0.6745"
    unfolding wavelet_threshold_def NoiseReducer_init_def by simp
  have la: "length (apply_threshold coeffs threshold) = 30"
    using shape(1) by simp
  have lai: "length (apply_threshold coeffs threshold ! i) = length audio_data"
    using i li by (simp add: apply_threshold_row)
  have ne: "audio_data \<noteq> []" using c by (rule cwt_Inr_nonempty) simp
  show ?thesis
    using ne wavelet_reconstruct_Inr [OF ne, of be self] t1 t2 shape(1) li la lai val rec
    by (intro conjI)
qed

lemma sort_two: "sort (concat (map (map abs) (replicate 30 [2, 0, 0, 0::real])))
                 = replicate 90 0 @ replicate 30 2"
  by (simp add: numeral_nat)

lemma median_two: "np_median (concat (map (map abs) (replicate 30 [2, 0, 0, 0]))) = 0"
  unfolding np_median_def sort_two by (simp add: nth_append)

lemma threshold_two: "wavelet_threshold (NoiseReducer_init sr) (replicate 30 [2, 0, 0, 0]) = 0"
  unfolding wavelet_threshold_def median_two by simp

lemma apply_threshold_two: "apply_threshold (replicate 30 [2, 0, 0, 0]) 0 = replicate 30 [2, 0, 0, 0]"
  by (simp add: apply_threshold_def)

lemma mean_axis0_replicate4:
  assumes n: "0 < n"
  shows "mean_axis0 (replicate n [a, b, c, d]) = [a, b, c, d]"
proof -
  let ?M = "replicate n [a, b, c, d]"
  have inner: "map (\<lambda>j. ?M ! j ! i) [0..<length ?M] = replicate n ([a, b, c, d] ! i)" for i
    by (rule nth_equalityI) simp_all
  have "transpose ?M = map (\<lambda>i. map (\<lambda>j. ?M ! j ! i) [0..<length ?M]) [0..<4]"
    by (rule transpose_rectangle) (use n in auto)
  also have "\<dots> = map (\<lambda>i. replicate n ([a, b, c, d] ! i)) [0..<4]"
    unfolding inner ..
  also have "\<dots> = [replicate n a, replicate n b, replicate n c, replicate n d]"
  proof -
    have "[0..<4] = [0, 1, 2, 3::nat]" by (simp add: upt_rec)
    then show ?thesis by simp
  qed
  finally show ?thesis using n by (simp add: mean_axis0_def np_mean_def sum_list_replicate)
qed

lemma wavelet_reconstruct_two:
  "wavelet_reconstruct example_backend (NoiseReducer_init sr) [2, 0, 0, 0] = Inr [1, 0, 0, 0]"
  unfolding wavelet_reconstruct_def cwt_example
  by (simp add: threshold_two apply_threshold_two mean_axis0_replicate4 np_max_def)

theorem wavelet_hard_threshold_witness:
  "cwt [2, 0, 0, 0] (ricker example_backend) [1..<31] = Inr (replicate 30 [2, 0, 0, 0]) \<and>
   wavelet_threshold (NoiseReducer_init 100) (replicate 30 [2, 0, 0, 0]) = 0 \<and>
   apply_threshold (replicate 30 [2, 0, 0, 0]) 0 ! 0 ! 0 = 2 \<and>
   apply_threshold (replicate 30 [2, 0, 0, 0]) 0 ! 0 ! 1 = 0 \<and>
   wavelet_reconstruct example_backend (NoiseReducer_init 100) [2, 0, 0, 0] = Inr [1, 0, 0, 0]"
proof -
  have c: "cwt [2, 0, 0, 0] (ricker example_backend) [1..<31] = Inr (replicate 30 [2, 0, 0, 0])"
    by (rule cwt_example)
  have t: "(0::real) = wavelet_threshold (NoiseReducer_init 100) (replicate 30 [2, 0, 0, 0])"
    by (simp add: threshold_two)
  have i: "0 < length (replicate 30 [2, 0, 0, 0 :: real])" by simp
  have j0: "0 < length (replicate 30 [2, 0, 0, 0 :: real] ! 0)" by simp
  have j1: "1 < length (replicate 30 [2, 0, 0, 0 :: real] ! 0)" by simp
  show ?thesis
    using wavelet_hard_threshold [OF c t i j0, of 100]
      wavelet_hard_threshold [OF c t i j1, of 100] c wavelet_reconstruct_two [of 100]
    by (simp add: threshold_two)
qed

section \<open>The energy of the wavelet denoiser's output\<close>

lemma sum_squares_nonneg: "0 \<le> sum_list (map (\<lambda>x. x\<^sup>2) (xs :: real list))"
  by (rule sum_list_nonneg) auto

lemma rms_energy_nonneg [simp]: "0 \<le> rms_energy xs"
  by (simp add: rms_energy_def np_mean_def sum_squares_nonneg)

lemma rms_energy_scale:
  assumes "0 \<le> c"
  shows "rms_energy (map (\<lambda>v. v * c) xs) = c * rms_energy xs"
proof -
  have "sum_list (map (\<lambda>x. x\<^sup>2) (map (\<lambda>v. v * c) xs)) = c\<^sup>2 * sum_list (map (\<lambda>x. x\<^sup>2) xs)"
    by (induction xs) (simp_all add: power_mult_distrib algebra_simps)
  then have "np_mean (map (\<lambda>x. x\<^sup>2) (map (\<lambda>v. v * c) xs)) = c\<^sup>2 * np_mean (map (\<lambda>x. x\<^sup>2) xs)"
    by (simp add: np_mean_def)
  then show ?thesis
    using assms by (simp add: rms_energy_def real_sqrt_mult)
qed

lemma wavelet_rescaled:
  assumes rec: "wavelet_reconstruct be self audio_data = Inr denoised"
  shows "\<exists>out. reduce_noise_wavelet be self audio_data = Inr out \<and>
               (rms_energy denoised \<noteq> 0 \<longrightarrow> rms_energy out = rms_energy audio_data) \<and>
               (rms_energy denoised = 0 \<longrightarrow> out = denoised)"
proof (cases "rms_energy denoised > 0")
  case True
  let ?c = "rms_energy audio_data / rms_energy denoised"
  have run: "reduce_noise_wavelet be self audio_data = Inr (map (\<lambda>v. v * ?c) denoised)"
    using rec True by (simp add: reduce_noise_wavelet_def Let_def)
  have "0 \<le> ?c" by simp
  then have "rms_energy (map (\<lambda>v. v * ?c) denoised) = ?c * rms_energy denoised"
    by (rule rms_energy_scale)
  also have "\<dots> = rms_energy audio_data" using True by simp
  finally show ?thesis using run True by simp
next
  case False
  then have zero: "rms_energy denoised = 0"
    using rms_energy_nonneg [of denoised] by linarith
  have "reduce_noise_wavelet be self audio_data = Inr denoised"
    using rec False by (simp add: reduce_noise_wavelet_def Let_def)
  then show ?thesis using zero by simp
qed

lemma rms_energy_one: "rms_energy [1, 0, 0, 0] = 1 / 2"
proof -
  have "sqrt (1 / 4) = 1 / 2" by (simp add: real_sqrt_divide)
  then show ?thesis by (simp add: rms_energy_def np_mean_def)
qed

lemma rms_energy_two: "rms_energy [2, 0, 0, 0] = 1"
  by (simp add: rms_energy_def np_mean_def)

lemma reduce_noise_wavelet_two:
  "reduce_noise_wavelet example_backend (NoiseReducer_init sr) [2, 0, 0, 0] = Inr [2, 0, 0, 0]"
  by (simp add: reduce_noise_wavelet_def wavelet_reconstruct_two rms_energy_one rms_energy_two)

text \<open>
  Claim C4. Let \<open>denoised\<close> be the reconstructed and normalised signal of the wavelet
  denoiser; it exists for every non-empty buffer. When its RMS is not zero, the output
  of \<open>reduce_noise_wavelet\<close> has exactly the RMS of the input buffer, in real
  arithmetic. When its RMS is zero the rescaling is skipped, and the output is
  \<open>denoised\<close> itself: nothing is divided by zero.
\<close>

theorem wavelet_energy_preserved:
  "(audio_data \<noteq> [] \<longrightarrow>
      (\<exists>reconstructed. wavelet_reconstruct be self audio_data = Inr reconstructed)) \<and>
   (wavelet_reconstruct be self audio_data = Inr denoised \<longrightarrow>
      (\<exists>out. reduce_noise_wavelet be self audio_data = Inr out \<and>
             (rms_energy denoised \<noteq> 0 \<longrightarrow> rms_energy out = rms_energy audio_data) \<and>
             (rms_energy denoised = 0 \<longrightarrow> out = denoised)))"
proof (rule conjI; rule impI)
  assume "audio_data \<noteq> []"
  then show "\<exists>reconstructed. wavelet_reconstruct be self audio_data = Inr reconstructed"
    by (rule wavelet_reconstruct_Inr)
next
  assume "wavelet_reconstruct be self audio_data = Inr denoised"
  then show "\<exists>out. reduce_noise_wavelet be self audio_data = Inr out \<and>
             (rms_energy denoised \<noteq> 0 \<longrightarrow> rms_energy out = rms_energy audio_data) \<and>
             (rms_energy denoised = 0 \<longrightarrow> out = denoised)"
    by (rule wavelet_rescaled)
qed

theorem wavelet_energy_preserved_witness:
  "wavelet_reconstruct example_backend (NoiseReducer_init 100) [2, 0, 0, 0] = Inr [1, 0, 0, 0] \<and>
   rms_energy [1, 0, 0, 0] \<noteq> 0 \<and>
   reduce_noise_wavelet example_backend (NoiseReducer_init 100) [2, 0, 0, 0] = Inr [2, 0, 0, 0] \<and>
   rms_energy [2, 0, 0, 0] = 1"
  using wavelet_energy_preserved [of "[2, 0, 0, 0]" example_backend "NoiseReducer_init 100"
      "[1, 0, 0, 0]"]
    wavelet_reconstruct_two [of 100] reduce_noise_wavelet_two [of 100]
  by (simp add: rms_energy_one rms_energy_two)

section \<open>Masks and the lengths of the outputs\<close>

subsection \<open>Indexing and assignment through a mask\<close>

lemma length_selected:
  "length xs = length bs \<Longrightarrow> length (filter snd (zip xs bs)) = count_true bs"
  by (induction xs bs rule: list_induct2) (auto simp: count_true_def)

lemma assign_where_selected:
  "length xs = length bs \<Longrightarrow> length bs = length ds \<Longrightarrow>
   assign_where xs bs (map f (map fst (filter snd (zip ds bs))))
     = map (\<lambda>(x, b, d). if b then f d else x) (zip xs (zip bs ds))"
  by (induction xs bs ds rule: list_induct3) auto

lemma map2_selected:
  "length ds = length bs \<Longrightarrow> length bs = length as \<Longrightarrow>
   map2 g (map fst (filter snd (zip ds bs))) (map fst (filter snd (zip as bs)))
     = map (\<lambda>(d, a). g d a) (map fst (filter snd (zip (zip ds as) bs)))"
  by (induction ds bs as rule: list_induct3) auto

lemma masked_mix_result:
  assumes ld: "length denoised = length audio_data"
      and lm: "length silence_mask = length audio_data"
  shows "masked_mix audio_data denoised silence_mask wd wo =
           Inr (map (\<lambda>i. if silence_mask ! i then denoised ! i * 0.9
                          else denoised ! i * wd + audio_data ! i * wo)
                  [0..<length audio_data])"
proof -
  let ?n = "length audio_data"
  let ?nb = "map Not silence_mask"
  let ?z = "replicate ?n (0::real)"
  let ?ds = "map fst (filter snd (zip denoised silence_mask))"
  let ?m1 = "map (\<lambda>(x, b, d). if b then d * 0.9 else x) (zip ?z (zip silence_mask denoised))"
  let ?g = "\<lambda>d a. d * wd + a * wo"
  let ?vs = "map2 ?g (map fst (filter snd (zip denoised ?nb))) (map fst (filter snd (zip audio_data ?nb)))"
  let ?m2 = "map (\<lambda>(x, b, da). if b then (\<lambda>(d, a). ?g d a) da else x)
               (zip ?m1 (zip ?nb (zip denoised audio_data)))"
  have lz: "length silence_mask = length ?z" and lnb: "length ?nb = length ?m1"
    using ld lm by simp_all
  have i1: "bool_index denoised silence_mask = Inr ?ds"
    using ld lm by (simp add: bool_index_def)
  have len1: "length (map (\<lambda>v. v * 0.9) ?ds) = count_true silence_mask"
    using ld lm by (simp add: length_selected)
  have as1: "assign_where ?z silence_mask (map (\<lambda>v. v * 0.9) ?ds) = ?m1"
    by (rule assign_where_selected) (use ld lm in simp_all)
  have a1: "bool_assign ?z silence_mask (map (\<lambda>v. v * 0.9) ?ds) = Inr ?m1"
    unfolding bool_assign_def as1 using lz len1 by (simp only: if_False simp_thms)
  have i2: "bool_index denoised ?nb = Inr (map fst (filter snd (zip denoised ?nb)))"
    using ld lm by (simp add: bool_index_def)
  have i3: "bool_index audio_data ?nb = Inr (map fst (filter snd (zip audio_data ?nb)))"
    using lm by (simp add: bool_index_def)
  have vs: "?vs = map (\<lambda>(d, a). ?g d a) (map fst (filter snd (zip (zip denoised audio_data) ?nb)))"
    using ld lm by (intro map2_selected) simp_all
  have lvs: "length ?vs = count_true ?nb"
    unfolding vs using ld lm by (simp add: length_selected)
  have as2: "assign_where ?m1 ?nb ?vs = ?m2"
    unfolding vs using ld lm by (intro assign_where_selected) simp_all
  have a2: "bool_assign ?m1 ?nb ?vs = Inr ?m2"
    unfolding bool_assign_def as2 using lnb lvs by (simp only: if_False simp_thms)
  have fin: "?m2 = map (\<lambda>i. if silence_mask ! i then denoised ! i * 0.9
                         else denoised ! i * wd + audio_data ! i * wo) [0..<?n]"
    using ld lm by (intro nth_equalityI) simp_all
  show ?thesis
    unfolding masked_mix_def Let_def i1 a1 i2 i3 a2 sum.case fin ..
qed

lemma masked_mix_Inl:
  "masked_mix audio_data denoised silence_mask wd wo = Inl e \<Longrightarrow>
   length denoised \<noteq> length audio_data \<or> length silence_mask \<noteq> length audio_data"
  using masked_mix_result [of denoised audio_data silence_mask wd wo] by auto

subsection \<open>Lengths of the denoisers' outputs\<close>

lemma reduce_noise_standard_length:
  "reduce_noise_standard be self audio_data = Inr out \<Longrightarrow> length out = length audio_data"
  by (auto simp: reduce_noise_standard_def Let_def filtfilt_length
           split: sum.splits if_splits prod.splits)

lemma wavelet_reconstruct_length:
  assumes "wavelet_reconstruct be self audio_data = Inr denoised"
  shows "length denoised = length audio_data"
proof -
  from assms obtain coeffs where c: "cwt audio_data (ricker be) [1..<31] = Inr coeffs"
    by (auto simp: wavelet_reconstruct_def split: sum.splits)
  have shape: "length coeffs = 30" "\<forall>row\<in>set coeffs. length row = length audio_data"
    using cwt_shape [OF c] by simp_all
  let ?T = "apply_threshold coeffs (wavelet_threshold self coeffs)"
  have "?T \<noteq> []" using shape(1) by (simp add: apply_threshold_def) auto
  moreover have "\<forall>row\<in>set ?T. length row = length audio_data"
    using shape(2) by (rule apply_threshold_rows_length)
  ultimately have "length (mean_axis0 ?T) = length audio_data"
    by (rule mean_axis0_length)
  then show ?thesis
    using assms c by (auto simp: wavelet_reconstruct_def Let_def split: sum.splits if_splits)
qed

lemma wavelet_reconstruct_empty: "wavelet_reconstruct be self [] = Inl ValueError"
  by (simp add: wavelet_reconstruct_def cwt_empty)

lemma reduce_noise_wavelet_length:
  "reduce_noise_wavelet be self audio_data = Inr out \<Longrightarrow> length out = length audio_data"
  by (auto simp: reduce_noise_wavelet_def Let_def wavelet_reconstruct_length
           split: sum.splits if_splits)

lemma reduce_noise_wavelet_Inr:
  "audio_data \<noteq> [] \<Longrightarrow> \<exists>out. reduce_noise_wavelet be self audio_data = Inr out"
  using wavelet_reconstruct_Inr [of audio_data be self]
  by (auto simp: reduce_noise_wavelet_def Let_def)

lemma reduce_noise_wavelet_empty: "reduce_noise_wavelet be self [] = Inl ValueError"
  by (simp add: reduce_noise_wavelet_def wavelet_reconstruct_empty)

lemma multi_stage_denoising_parts:
  assumes "multi_stage_denoising be self audio_data = Inr mixed_audio"
  shows "\<exists>stage1 stage2 silence_mask.
           reduce_noise_standard be self audio_data = Inr stage1 \<and>
           reduce_noise_wavelet be self stage1 = Inr stage2 \<and>
           NoiseReducer_detect_silence self audio_data None = Inr silence_mask \<and>
           length stage1 = length audio_data \<and> length stage2 = length audio_data \<and>
           length silence_mask = length audio_data \<and>
           mixed_audio = map (\<lambda>i. if silence_mask ! i then stage2 ! i * 0.9
                                   else stage2 ! i * 0.6 + audio_data ! i * 0.4)
                           [0..<length audio_data]"
proof -
  from assms obtain stage1 stage2 silence_mask where
    s1: "reduce_noise_standard be self audio_data = Inr stage1" and
    s2: "reduce_noise_wavelet be self stage1 = Inr stage2" and
    ds: "NoiseReducer_detect_silence self audio_data None = Inr silence_mask" and
    mm: "masked_mix audio_data stage2 silence_mask 0.6 0.4 = Inr mixed_audio"
    by (auto simp: multi_stage_denoising_def split: sum.splits)
  have l1: "length stage1 = length audio_data" using s1 by (rule reduce_noise_standard_length)
  have l2: "length stage2 = length audio_data"
    using reduce_noise_wavelet_length [OF s2] l1 by simp
  have lm: "length silence_mask = length audio_data"
    using ds by (rule NoiseReducer_detect_silence_length)
  show ?thesis
    using s1 s2 ds l1 l2 lm mm masked_mix_result [OF l2 lm, of "0.6" "0.4"] by auto
qed

lemma multi_stage_denoising_length:
  "multi_stage_denoising be self audio_data = Inr out \<Longrightarrow> length out = length audio_data"
  using multi_stage_denoising_parts [of be self audio_data out] by auto

subsection \<open>When the denoisers return\<close>

lemma NoiseReducer_detect_silence_accepts:
  assumes "NoiseReducer_detect_silence self audio_data thr = Inr m"
  shows "100 \<le> sample_rate self \<and>
         py_int (0.02 * real_of_int (sample_rate self)) \<le> int (length audio_data)"
proof (rule ccontr)
  assume "\<not> ?thesis"
  then have "NoiseReducer_detect_silence self audio_data thr = Inl ParameterError"
    unfolding NoiseReducer_detect_silence_Inl by auto
  then show False using assms by simp
qed

lemma hop_le_frame_length:
  assumes "100 \<le> sr"
  shows "py_int (0.01 * real_of_int sr) \<le> py_int (0.02 * real_of_int sr)"
proof -
  have nn: "0 \<le> sr" using assms by simp
  have "sr div 100 \<le> sr div 50" using assms by (intro zdiv_mono2) simp_all
  then show ?thesis unfolding py_int_hop_length [OF nn] py_int_frame_length [OF nn] .
qed

lemma reduce_noise_standard_Inr:
  assumes "100 \<le> sample_rate self"
      and "py_int (0.02 * real_of_int (sample_rate self)) \<le> int (length audio_data)"
      and "3 * max (length (snd (butter be 8 0.1))) (length (fst (butter be 8 0.1)))
             < length audio_data"
  shows "\<exists>out. reduce_noise_standard be self audio_data = Inr out"
proof -
  obtain m where ds: "NoiseReducer_detect_silence self audio_data None = Inr m"
    using NoiseReducer_detect_silence_Inr [OF assms(1,2)] by blast
  have lm: "length m = length audio_data" using ds by (rule NoiseReducer_detect_silence_length)
  show ?thesis
  proof (cases "count_true m > 0")
    case True
    then show ?thesis using ds lm by (simp add: reduce_noise_standard_def Let_def bool_index_def)
  next
    case False
    obtain b a where ba: "butter be 8 0.1 = (b, a)" by (cases "butter be 8 0.1")
    then have "\<not> length audio_data \<le> 3 * max (length a) (length b)"
      using assms(3) by simp
    then show ?thesis
      using ds False ba by (simp add: reduce_noise_standard_def Let_def filtfilt_def)
  qed
qed

lemma multi_stage_denoising_Inr:
  assumes "100 \<le> sample_rate self"
      and "py_int (0.02 * real_of_int (sample_rate self)) \<le> int (length audio_data)"
      and "3 * max (length (snd (butter be 8 0.1))) (length (fst (butter be 8 0.1)))
             < length audio_data"
  shows "\<exists>out. multi_stage_denoising be self audio_data = Inr out"
proof -
  obtain s1 where s1: "reduce_noise_standard be self audio_data = Inr s1"
    using reduce_noise_standard_Inr [OF assms] by blast
  have l1: "length s1 = length audio_data" using s1 by (rule reduce_noise_standard_length)
  have "audio_data \<noteq> []" using assms(3) by auto
  then have "s1 \<noteq> []" using l1 by auto
  then obtain s2 where s2: "reduce_noise_wavelet be self s1 = Inr s2"
    using reduce_noise_wavelet_Inr by blast
  have l2: "length s2 = length audio_data"
    using reduce_noise_wavelet_length [OF s2] l1 by simp
  obtain m where ds: "NoiseReducer_detect_silence self audio_data None = Inr m"
    using NoiseReducer_detect_silence_Inr [OF assms(1,2)] by blast
  have lm: "length m = length audio_data" using ds by (rule NoiseReducer_detect_silence_length)
  show ?thesis
    using s1 s2 ds masked_mix_result [OF l2 lm]
    by (simp add: multi_stage_denoising_def)
qed

lemma enhanced_parts:
  assumes "enhanced_multi_stage_denoising be self audio_data True = Inr result"
  shows "\<exists>base silence_mask.
           multi_stage_denoising be self audio_data = Inr base \<and>
           NoiseReducer_detect_silence self audio_data None = Inr silence_mask \<and>
           length base = length audio_data \<and> length silence_mask = length audio_data \<and>
           np_convolve_same
             (map (\<lambda>i. if silence_mask ! i then base ! i * 0.9
                        else base ! i * 0.7 + audio_data ! i * 0.3) [0..<length audio_data])
             (replicate (nat (py_int (0.01 * real_of_int (sample_rate self))))
                (1 / real_of_int (py_int (0.01 * real_of_int (sample_rate self)))))
           = Inr result"
proof -
  from assms obtain base silence_mask blended where
    b: "multi_stage_denoising be self audio_data = Inr base" and
    ds: "NoiseReducer_detect_silence self audio_data None = Inr silence_mask" and
    mm: "masked_mix audio_data base silence_mask 0.7 0.3 = Inr blended" and
    cv: "np_convolve_same blended
           (map (\<lambda>one. one / real_of_int (py_int (0.01 * real_of_int (sample_rate self))))
              (replicate (nat (py_int (0.01 * real_of_int (sample_rate self)))) 1)) = Inr result"
    by (auto simp: enhanced_multi_stage_denoising_def Let_def split: sum.splits)
  have lb: "length base = length audio_data" using b by (rule multi_stage_denoising_length)
  have lm: "length silence_mask = length audio_data"
    using ds by (rule NoiseReducer_detect_silence_length)
  have "blended = map (\<lambda>i. if silence_mask ! i then base ! i * 0.9
                            else base ! i * 0.7 + audio_data ! i * 0.3) [0..<length audio_data]"
    using mm masked_mix_result [OF lb lm, of "0.7" "0.3"] by simp
  then show ?thesis using b ds lb lm cv by auto
qed

lemma enhanced_length:
  assumes "enhanced_multi_stage_denoising be self audio_data vp = Inr result"
  shows "length result = length audio_data"
proof (cases vp)
  case False
  then have "multi_stage_denoising be self audio_data = Inr result"
    using assms by (auto simp: enhanced_multi_stage_denoising_def split: sum.splits)
  then show ?thesis by (rule multi_stage_denoising_length)
next
  case True
  let ?w = "py_int (0.01 * real_of_int (sample_rate self))"
  from assms True have "enhanced_multi_stage_denoising be self audio_data True = Inr result"
    by simp
  from enhanced_parts [OF this] obtain base silence_mask where
    ds: "NoiseReducer_detect_silence self audio_data None = Inr silence_mask" and
    cv: "np_convolve_same
             (map (\<lambda>i. if silence_mask ! i then base ! i * 0.9
                        else base ! i * 0.7 + audio_data ! i * 0.3) [0..<length audio_data])
             (replicate (nat ?w) (1 / real_of_int ?w)) = Inr result"
    by blast
  have acc: "100 \<le> sample_rate self"
            "py_int (0.02 * real_of_int (sample_rate self)) \<le> int (length audio_data)"
    using NoiseReducer_detect_silence_accepts [OF ds] by simp_all
  have "?w \<le> int (length audio_data)"
    using hop_le_frame_length [OF acc(1)] acc(2) by linarith
  then have "nat ?w \<le> length audio_data" by simp
  then show ?thesis using np_convolve_same_length [OF cv] by simp
qed

lemma enhanced_Inr:
  assumes "100 \<le> sample_rate self"
      and "py_int (0.02 * real_of_int (sample_rate self)) \<le> int (length audio_data)"
      and "3 * max (length (snd (butter be 8 0.1))) (length (fst (butter be 8 0.1)))
             < length audio_data"
  shows "\<exists>out. enhanced_multi_stage_denoising be self audio_data vp = Inr out"
proof -
  let ?w = "py_int (0.01 * real_of_int (sample_rate self))"
  obtain base where b: "multi_stage_denoising be self audio_data = Inr base"
    using multi_stage_denoising_Inr [OF assms] by blast
  have lb: "length base = length audio_data" using b by (rule multi_stage_denoising_length)
  obtain m where ds: "NoiseReducer_detect_silence self audio_data None = Inr m"
    using NoiseReducer_detect_silence_Inr [OF assms(1,2)] by blast
  have lm: "length m = length audio_data" using ds by (rule NoiseReducer_detect_silence_length)
  have ne: "audio_data \<noteq> []" using assms(3) by auto
  have w: "1 \<le> ?w" using assms(1) py_int_hop_ge1 by blast
  then have kne: "map (\<lambda>one. one / real_of_int ?w) (replicate (nat ?w) (1::real)) \<noteq> []"
    by auto
  let ?bl = "map (\<lambda>i. if m ! i then base ! i * 0.9 else base ! i * 0.7 + audio_data ! i * 0.3)
               [0..<length audio_data]"
  have "?bl \<noteq> []" using ne by simp
  from np_convolve_same_Inr [OF this kne] obtain r where
    "np_convolve_same ?bl (map (\<lambda>one. one / real_of_int ?w) (replicate (nat ?w) 1)) = Inr r"
    by blast
  then show ?thesis
    using b ds masked_mix_result [OF lb lm, of "0.7" "0.3"]
    by (cases vp) (simp_all add: enhanced_multi_stage_denoising_def Let_def)
qed

subsection \<open>Runs on concrete buffers\<close>

lemma NoiseReducer_init_simps [simp]:
  "sample_rate (NoiseReducer_init sr) = sr"
  "silence_threshold_db (NoiseReducer_init sr) = -45"
  "wavelet_threshold_mult (NoiseReducer_init sr) = 2.5"
  by (simp_all add: NoiseReducer_init_def)

lemma reduce_noise_standard_example:
  "reduce_noise_standard example_backend (NoiseReducer_init 100) [1, 0, 0, 0] = Inr [0, 0, 0, 0]"
proof -
  have cnt: "0 < count_true [False, True, True, True]" by (simp add: count_true_def)
  have bi: "bool_index [1, 0, 0, 0 :: real] [False, True, True, True] = Inr [0, 0, 0]"
    by (simp add: bool_index_def)
  show ?thesis
    unfolding reduce_noise_standard_subtraction [OF detect_silence_example cnt bi] by simp
qed

lemma reduce_noise_standard_lowpass_example:
  "reduce_noise_standard example_backend (NoiseReducer_init 100) [1, 1, 1, 1] = Inr [1, 1, 1, 1]"
proof -
  have fr: "frame [1, 1, 1, 1] 2 1 = Inr [[1, 1], [1, 1], [1, 1]]"
    by (simp add: frame_def upt_rec)
  have "frame_silence_mask [1, 1, 1, 1] 2 1 (-45) = Inr [False, False, False]"
    by (simp add: frame_silence_mask_closed [OF fr] frame_energy_def)
  then have ds: "NoiseReducer_detect_silence (NoiseReducer_init 100) [1, 1, 1, 1] None
                   = Inr [False, False, False, False]"
    by (simp add: NoiseReducer_detect_silence_def)
  show ?thesis
    by (simp add: reduce_noise_standard_def ds count_true_def filtfilt_def upt_rec)
qed

lemma sort_zeros: "sort (concat (map (map abs) (replicate 30 [0, 0, 0, 0::real]))) = replicate 120 0"
  by (simp add: numeral_nat)

lemma median_zeros: "np_median (concat (map (map abs) (replicate 30 [0, 0, 0, 0]))) = 0"
  unfolding np_median_def sort_zeros by simp

lemma wavelet_reconstruct_zeros:
  "wavelet_reconstruct example_backend self [0, 0, 0, 0] = Inr [0, 0, 0, 0]"
proof -
  have t: "wavelet_threshold self (replicate 30 [0, 0, 0, 0]) = 0"
    unfolding wavelet_threshold_def median_zeros by simp
  have a: "apply_threshold (replicate 30 [0, 0, 0, 0]) 0 = replicate 30 [0, 0, 0, 0]"
    by (simp add: apply_threshold_def)
  show ?thesis
    unfolding wavelet_reconstruct_def cwt_example
    by (simp add: t a mean_axis0_replicate4 np_max_def)
qed

lemma reduce_noise_wavelet_zeros:
  "reduce_noise_wavelet example_backend self [0, 0, 0, 0] = Inr [0, 0, 0, 0]"
  by (simp add: reduce_noise_wavelet_def wavelet_reconstruct_zeros rms_energy_def np_mean_def)

lemma upt_4: "[0..<4] = [0, 1, 2, 3::nat]"
  by (simp add: upt_rec)

lemma multi_stage_example:
  "multi_stage_denoising example_backend (NoiseReducer_init 100) [1, 0, 0, 0]
     = Inr [2 / 5, 0, 0, 0]"
proof -
  have "masked_mix [1, 0, 0, 0] [0, 0, 0, 0] [False, True, True, True] 0.6 0.4
          = Inr [2 / 5, 0, 0, 0]"
    by (subst masked_mix_result) (simp_all add: upt_4)
  then show ?thesis
    by (simp add: multi_stage_denoising_def reduce_noise_standard_example
          reduce_noise_wavelet_zeros detect_silence_example)
qed

lemma enhanced_example:
  "enhanced_multi_stage_denoising example_backend (NoiseReducer_init 100) [1, 0, 0, 0] True
     = Inr [29 / 50, 0, 0, 0]"
proof -
  have mm: "masked_mix [1, 0, 0, 0] [2 / 5, 0, 0, 0] [False, True, True, True] 0.7 0.3
          = Inr [29 / 50, 0, 0, 0]"
    by (subst masked_mix_result) (simp_all add: upt_4)
  have cv: "np_convolve_same [29 / 50, 0, 0, 0] [1] = Inr [29 / 50, 0, 0, 0]"
    by (simp add: np_convolve_same_def convolve_full_def upt_4)
  show ?thesis
    by (simp add: enhanced_multi_stage_denoising_def multi_stage_example
          detect_silence_example mm cv)
qed

section \<open>The staged denoisers\<close>

lemma multi_stage_mixed:
  assumes "multi_stage_denoising be self audio_data = Inr mixed_audio"
  shows "\<exists>stage1 stage2 silence_mask.
           reduce_noise_standard be self audio_data = Inr stage1 \<and>
           reduce_noise_wavelet be self stage1 = Inr stage2 \<and>
           NoiseReducer_detect_silence self audio_data None = Inr silence_mask \<and>
           length stage2 = length audio_data \<and>
           length silence_mask = length audio_data \<and>
           length mixed_audio = length audio_data \<and>
           (\<forall>i<length audio_data.
              mixed_audio ! i =
                (if silence_mask ! i then 0.9 * stage2 ! i
                 else 0.6 * stage2 ! i + 0.4 * audio_data ! i))"
proof -
  from multi_stage_denoising_parts [OF assms] obtain stage1 stage2 silence_mask where
    p: "reduce_noise_standard be self audio_data = Inr stage1"
       "reduce_noise_wavelet be self stage1 = Inr stage2"
       "NoiseReducer_detect_silence self audio_data None = Inr silence_mask"
       "length stage2 = length audio_data"
       "length silence_mask = length audio_data" and
    m: "mixed_audio = map (\<lambda>i. if silence_mask ! i then stage2 ! i * 0.9
                                 else stage2 ! i * 0.6 + audio_data ! i * 0.4)
                         [0..<length audio_data]"
    by blast
  have "length mixed_audio = length audio_data" using m by simp
  moreover have "\<forall>i<length audio_data.
              mixed_audio ! i =
                (if silence_mask ! i then 0.9 * stage2 ! i
                 else 0.6 * stage2 ! i + 0.4 * audio_data ! i)"
    using m by (simp add: mult.commute)
  ultimately show ?thesis using p by blast
qed

lemma multi_stage_denoising_unfolded:
  "multi_stage_denoising be self audio_data =
     (case reduce_noise_standard be self audio_data of
        Inl e \<Rightarrow> Inl e
      | Inr stage1 \<Rightarrow>
          (case reduce_noise_wavelet be self stage1 of
             Inl e \<Rightarrow> Inl e
           | Inr stage2 \<Rightarrow>
               (case NoiseReducer_detect_silence self audio_data None of
                  Inl e \<Rightarrow> Inl e
                | Inr silence_mask \<Rightarrow>
                    Inr (map (\<lambda>i. if silence_mask ! i then stage2 ! i * 0.9
                                    else stage2 ! i * 0.6 + audio_data ! i * 0.4)
                           [0..<length audio_data]))))"
proof (cases "reduce_noise_standard be self audio_data")
  case (Inl e)
  then show ?thesis by (simp add: multi_stage_denoising_def)
next
  case s1: (Inr stage1)
  have l1: "length stage1 = length audio_data" using s1 by (rule reduce_noise_standard_length)
  show ?thesis
  proof (cases "reduce_noise_wavelet be self stage1")
    case (Inl e)
    then show ?thesis using s1 by (simp add: multi_stage_denoising_def)
  next
    case s2: (Inr stage2)
    have l2: "length stage2 = length audio_data"
      using reduce_noise_wavelet_length [OF s2] l1 by simp
    show ?thesis
    proof (cases "NoiseReducer_detect_silence self audio_data None")
      case (Inl e)
      then show ?thesis using s1 s2 by (simp add: multi_stage_denoising_def)
    next
      case ds: (Inr silence_mask)
      have lm: "length silence_mask = length audio_data"
        using ds by (rule NoiseReducer_detect_silence_length)
      show ?thesis
        using s1 s2 ds masked_mix_result [OF l2 lm, of "0.6" "0.4"]
        by (simp add: multi_stage_denoising_def)
    qed
  qed
qed

text \<open>
  Claim C7. For every input buffer \<open>multi_stage_denoising\<close> is the per-sample mix of
  \<open>stage2\<close> and the original buffer under the silence mask of the original buffer, an
  error of one of the three stages being the error of the whole. It returns a buffer
  for every input of at least one frame, longer than the pad length of the low-pass
  filter, at a sample rate of at least 100 Hz. Whenever it returns a buffer, it is mixed
  per sample
  from \<open>stage2\<close>, the wavelet denoiser's output on the spectral-subtraction denoiser's
  output, and from the original buffer: \<open>0.9 * stage2\<close> on the samples marked silent
  and \<open>0.6 * stage2 + 0.4 * original\<close> on the others, the silence mask being the one of
  the original input buffer.
\<close>

theorem multi_stage_mixing:
  "multi_stage_denoising be self audio_data =
     (case reduce_noise_standard be self audio_data of
        Inl e \<Rightarrow> Inl e
      | Inr stage1 \<Rightarrow>
          (case reduce_noise_wavelet be self stage1 of
             Inl e \<Rightarrow> Inl e
           | Inr stage2 \<Rightarrow>
               (case NoiseReducer_detect_silence self audio_data None of
                  Inl e \<Rightarrow> Inl e
                | Inr silence_mask \<Rightarrow>
                    Inr (map (\<lambda>i. if silence_mask ! i then stage2 ! i * 0.9
                                    else stage2 ! i * 0.6 + audio_data ! i * 0.4)
                           [0..<length audio_data])))) \<and>
   (100 \<le> sample_rate self \<and>
    py_int (0.02 * real_of_int (sample_rate self)) \<le> int (length audio_data) \<and>
    3 * max (length (snd (butter be 8 0.1))) (length (fst (butter be 8 0.1)))
      < length audio_data \<longrightarrow>
      (\<exists>mixed. multi_stage_denoising be self audio_data = Inr mixed)) \<and>
   (multi_stage_denoising be self audio_data = Inr mixed_audio \<longrightarrow>
      (\<exists>stage1 stage2 silence_mask.
         reduce_noise_standard be self audio_data = Inr stage1 \<and>
         reduce_noise_wavelet be self stage1 = Inr stage2 \<and>
         NoiseReducer_detect_silence self audio_data None = Inr silence_mask \<and>
         length stage2 = length audio_data \<and>
         length silence_mask = length audio_data \<and>
         length mixed_audio = length audio_data \<and>
         (\<forall>i<length audio_data.
            mixed_audio ! i =
              (if silence_mask ! i then 0.9 * stage2 ! i
               else 0.6 * stage2 ! i + 0.4 * audio_data ! i))))"
proof (rule conjI, rule multi_stage_denoising_unfolded, rule conjI; rule impI)
  assume "100 \<le> sample_rate self \<and>
    py_int (0.02 * real_of_int (sample_rate self)) \<le> int (length audio_data) \<and>
    3 * max (length (snd (butter be 8 0.1))) (length (fst (butter be 8 0.1)))
      < length audio_data"
  then show "\<exists>mixed. multi_stage_denoising be self audio_data = Inr mixed"
    using multi_stage_denoising_Inr [of self audio_data be] by blast
next
  assume "multi_stage_denoising be self audio_data = Inr mixed_audio"
  then show "\<exists>stage1 stage2 silence_mask.
         reduce_noise_standard be self audio_data = Inr stage1 \<and>
         reduce_noise_wavelet be self stage1 = Inr stage2 \<and>
         NoiseReducer_detect_silence self audio_data None = Inr silence_mask \<and>
         length stage2 = length audio_data \<and>
         length silence_mask = length audio_data \<and>
         length mixed_audio = length audio_data \<and>
         (\<forall>i<length audio_data.
            mixed_audio ! i =
              (if silence_mask ! i then 0.9 * stage2 ! i
               else 0.6 * stage2 ! i + 0.4 * audio_data ! i))"
    by (rule multi_stage_mixed)
qed

theorem multi_stage_mixing_witness:
  "multi_stage_denoising example_backend (NoiseReducer_init 100) [1, 0, 0, 0]
     = Inr [2 / 5, 0, 0, 0] \<and>
   reduce_noise_standard example_backend (NoiseReducer_init 100) [1, 0, 0, 0]
     = Inr [0, 0, 0, 0] \<and>
   reduce_noise_wavelet example_backend (NoiseReducer_init 100) [0, 0, 0, 0]
     = Inr [0, 0, 0, 0] \<and>
   NoiseReducer_detect_silence (NoiseReducer_init 100) [1, 0, 0, 0] None
     = Inr [False, True, True, True] \<and>
   [2 / 5, 0, 0, 0] ! 0 = 0.6 * [0, 0, 0, 0] ! 0 + 0.4 * [1, 0, 0, 0 :: real] ! 0 \<and>
   [2 / 5, 0, 0, 0] ! 1 = 0.9 * [0, 0, 0, 0 :: real] ! 1"
  using multi_stage_mixing [where self = "NoiseReducer_init 100" and audio_data = "[1, 0, 0, 0]"
      and be = example_backend and mixed_audio = "[2 / 5, 0, 0, 0]"] multi_stage_example
    reduce_noise_standard_example reduce_noise_wavelet_zeros detect_silence_example
  by simp

subsection \<open>Rejected buffers\<close>

lemma rejected_by_framing:
  assumes "sample_rate self < 100 \<or>
           int (length audio_data) < py_int (0.02 * real_of_int (sample_rate self))"
  shows "NoiseReducer_detect_silence self audio_data None = Inl ParameterError"
    and "reduce_noise_standard be self audio_data = Inl ParameterError"
    and "multi_stage_denoising be self audio_data = Inl ParameterError"
    and "enhanced_multi_stage_denoising be self audio_data vp = Inl ParameterError"
proof -
  show ds: "NoiseReducer_detect_silence self audio_data None = Inl ParameterError"
    unfolding NoiseReducer_detect_silence_Inl using assms by auto
  show s: "reduce_noise_standard be self audio_data = Inl ParameterError"
    by (simp add: reduce_noise_standard_def ds)
  show m: "multi_stage_denoising be self audio_data = Inl ParameterError"
    by (simp add: multi_stage_denoising_def s)
  show "enhanced_multi_stage_denoising be self audio_data vp = Inl ParameterError"
    by (simp add: enhanced_multi_stage_denoising_def m)
qed

lemma empty_buffer_rejected:
  "sample_rate self < 100 \<or> int (length ([]::real list)) < py_int (0.02 * real_of_int (sample_rate self))"
proof (cases "sample_rate self < 100")
  case True
  then show ?thesis by simp
next
  case False
  then have "py_int (0.02 * real_of_int (sample_rate self)) = sample_rate self div 50"
    by (intro py_int_frame_length) simp
  then show ?thesis using False by simp
qed

text \<open>
  Claim C1, as the code has it. Every output a denoiser returns has exactly the number
  of samples of its input, in the spectral-subtraction branch, in the low-pass branch
  and with voice preservation on or off; the sample rate is a field of the denoiser
  that no denoiser changes, and is not part of the output. \<open>reduce_noise_wavelet\<close>
  returns an output for every non-empty buffer. The other three return one when the
  sample rate is at least 100 Hz, the buffer holds at least one frame of
  \<open>int(0.02 * sample_rate)\<close> samples and exceeds the pad length of the low-pass filter;
  a buffer shorter than one frame, or a sample rate below 100 Hz, is rejected by the
  framing of the silence detector with ParameterError.
\<close>

theorem denoisers_preserve_length:
  "(reduce_noise_standard be self audio_data = Inr out1 \<longrightarrow> length out1 = length audio_data) \<and>
   (reduce_noise_wavelet be self audio_data = Inr out2 \<longrightarrow> length out2 = length audio_data) \<and>
   (multi_stage_denoising be self audio_data = Inr out3 \<longrightarrow> length out3 = length audio_data) \<and>
   (enhanced_multi_stage_denoising be self audio_data voice_preserve = Inr out4 \<longrightarrow>
      length out4 = length audio_data) \<and>
   (audio_data \<noteq> [] \<longrightarrow> (\<exists>out. reduce_noise_wavelet be self audio_data = Inr out)) \<and>
   (100 \<le> sample_rate self \<and>
    py_int (0.02 * real_of_int (sample_rate self)) \<le> int (length audio_data) \<and>
    3 * max (length (snd (butter be 8 0.1))) (length (fst (butter be 8 0.1)))
      < length audio_data \<longrightarrow>
      (\<exists>out. reduce_noise_standard be self audio_data = Inr out) \<and>
      (\<exists>out. multi_stage_denoising be self audio_data = Inr out) \<and>
      (\<exists>out. enhanced_multi_stage_denoising be self audio_data voice_preserve = Inr out)) \<and>
   (sample_rate self < 100 \<or>
    int (length audio_data) < py_int (0.02 * real_of_int (sample_rate self)) \<longrightarrow>
      reduce_noise_standard be self audio_data = Inl ParameterError \<and>
      multi_stage_denoising be self audio_data = Inl ParameterError \<and>
      enhanced_multi_stage_denoising be self audio_data voice_preserve = Inl ParameterError)"
  using reduce_noise_standard_length [of be self audio_data out1]
    reduce_noise_wavelet_length [of be self audio_data out2]
    multi_stage_denoising_length [of be self audio_data out3]
    enhanced_length [of be self audio_data voice_preserve out4]
    reduce_noise_wavelet_Inr [of audio_data be self]
    reduce_noise_standard_Inr [of self audio_data be]
    multi_stage_denoising_Inr [of self audio_data be]
    enhanced_Inr [of self audio_data be voice_preserve]
    rejected_by_framing(2) [of self audio_data be]
    rejected_by_framing(3) [of self audio_data be]
    rejected_by_framing(4) [of self audio_data be voice_preserve]
  by (intro conjI impI) blast+

theorem denoisers_preserve_length_witness:
  "reduce_noise_standard example_backend (NoiseReducer_init 100) [1, 0, 0, 0]
     = Inr [0, 0, 0, 0] \<and>
   reduce_noise_standard example_backend (NoiseReducer_init 100) [1, 1, 1, 1]
     = Inr [1, 1, 1, 1] \<and>
   reduce_noise_wavelet example_backend (NoiseReducer_init 100) [2, 0, 0, 0]
     = Inr [2, 0, 0, 0] \<and>
   multi_stage_denoising example_backend (NoiseReducer_init 100) [1, 0, 0, 0]
     = Inr [2 / 5, 0, 0, 0] \<and>
   enhanced_multi_stage_denoising example_backend (NoiseReducer_init 100) [1, 0, 0, 0] True
     = Inr [29 / 50, 0, 0, 0] \<and>
   100 \<le> sample_rate (NoiseReducer_init 100) \<and>
   py_int (0.02 * real_of_int (sample_rate (NoiseReducer_init 100)))
     \<le> int (length [1, 0, 0, 0 :: real]) \<and>
   3 * max (length (snd (butter example_backend 8 0.1)))
         (length (fst (butter example_backend 8 0.1))) < length [1, 0, 0, 0 :: real] \<and>
   length [29 / 50, 0, 0, 0 :: real] = length [1, 0, 0, 0 :: real]"
  using denoisers_preserve_length [of example_backend "NoiseReducer_init 100" "[1, 0, 0, 0]"
      "[0, 0, 0, 0]" "[2, 0, 0, 0]" "[2 / 5, 0, 0, 0]" True "[29 / 50, 0, 0, 0]"]
    reduce_noise_standard_example reduce_noise_standard_lowpass_example
    reduce_noise_wavelet_two [of 100] multi_stage_example enhanced_example
  by simp

text \<open>
  The claim as stated takes every non-empty buffer for valid. The one-sample buffer
  \<open>[0.5]\<close> at 44100 Hz is shorter than a frame of 882 samples: three of the four
  denoisers return no output for it.
\<close>

theorem short_buffer_counterexample:
  "reduce_noise_standard example_backend (NoiseReducer_init 44100) [1 / 2]
     = Inl ParameterError \<and>
   multi_stage_denoising example_backend (NoiseReducer_init 44100) [1 / 2]
     = Inl ParameterError \<and>
   enhanced_multi_stage_denoising example_backend (NoiseReducer_init 44100) [1 / 2] True
     = Inl ParameterError \<and>
   py_int (0.02 * real_of_int 44100) = 882"
proof -
  have "sample_rate (NoiseReducer_init 44100) < 100 \<or>
        int (length [1 / 2 :: real])
          < py_int (0.02 * real_of_int (sample_rate (NoiseReducer_init 44100)))"
    by simp
  from rejected_by_framing(2-4) [OF this] show ?thesis by simp
qed

section \<open>Invalid input and degenerate buffers\<close>

subsection \<open>The all-zero buffer\<close>

lemma zero_frame_energy:
  assumes fr: "frame (replicate n 0) fl hop = Inr frames"
      and e: "e \<in> set (frame_energy frames)"
  shows "e = 0"
proof -
  from fr e obtain i where e_def:
    "e = sum_list (map (\<lambda>x. x\<^sup>2) (take (nat fl) (drop (i * nat hop) (replicate n (0::real)))))"
    by (auto simp: frame_Inr frame_energy_def)
  then show ?thesis by (simp add: sum_list_replicate)
qed

lemma zero_frame_silence_mask:
  assumes fr: "frame (replicate n 0) fl hop = Inr frames"
      and thr: "threshold_db \<le> 0"
  shows "frame_silence_mask (replicate n 0) fl hop threshold_db
           = Inr (replicate (length frames) False)"
proof -
  let ?E = "frame_energy frames"
  have z: "\<And>e. e \<in> set ?E \<Longrightarrow> e = 0" using zero_frame_energy [OF fr] by blast
  have ne: "?E \<noteq> []" using frame_nonempty [OF fr] by (simp add: frame_energy_def)
  then have "Max (set ?E) \<in> set ?E" by (simp add: Max_in)
  then have M: "Max (set ?E) = 0" using z by blast
  have "map (\<lambda>e. max (db_rel e (Max (set ?E))) (-80) < threshold_db) ?E = map (\<lambda>e. False) ?E"
  proof (intro map_cong refl)
    fix e assume "e \<in> set ?E"
    then have "e = Max (set ?E)" using z M by simp
    then have "db_rel e (Max (set ?E)) = 0" by (simp only: db_rel_self)
    then show "(max (db_rel e (Max (set ?E))) (-80) < threshold_db) = False"
      using thr by simp
  qed
  also have "\<dots> = replicate (length frames) False"
    by (simp add: map_replicate_const)
  finally show ?thesis
    by (simp add: frame_silence_mask_closed [OF fr])
qed

lemma zero_AudioEvaluator_detect_silence:
  assumes sr: "100 \<le> sr"
      and len: "py_int (0.02 * real_of_int sr) \<le> int n"
  shows "AudioEvaluator_detect_silence (replicate n 0) sr (-45) = Inr (0, 0)"
proof -
  let ?fl = "py_int (0.02 * real_of_int sr)" and ?hop = "py_int (0.01 * real_of_int sr)"
  have hop: "1 \<le> ?hop" using sr py_int_hop_ge1 by blast
  obtain frames where fr: "frame (replicate n 0) ?fl ?hop = Inr frames"
    using len hop by (auto simp: frame_Inr)
  have "frame_silence_mask (replicate n 0) ?fl ?hop (-45) = Inr (replicate (length frames) False)"
    by (rule zero_frame_silence_mask [OF fr]) simp
  then show ?thesis
    by (simp add: AudioEvaluator_detect_silence_def Let_def longest_silence_none)
qed

lemma zero_metrics:
  assumes "0 < n"
  shows "calculate_rms (replicate n 0) = (0, -100)"
    and "calculate_peak (replicate n 0) = Inr (0, -100)"
    and "calculate_cv (replicate n 0) = 1"
    and "estimate_snr (replicate n 0) = 100"
  using assms
  by (simp_all add: calculate_rms_def calculate_peak_def calculate_cv_def estimate_snr_def
        np_mean_def np_max_def sum_list_replicate)

lemma evaluate_audio_zeros:
  assumes sr: "100 \<le> sr"
      and len: "py_int (0.02 * real_of_int sr) \<le> int n"
  shows "evaluate_audio ev (replicate n 0) sr =
           Inr (\<lparr>rms = 0, rms_db = -100, peak = 0, peak_db = -100, cv = 1, snr = 100,
                  non_speech_ratio = 0, max_silence = 0\<rparr>,
                -100 \<ge> std_rms_db (standards ev) \<and> -100 \<le> std_peak_db (standards ev) \<and>
                1 \<le> std_cv (standards ev) \<and> 100 \<ge> std_snr (standards ev) \<and>
                0 \<le> std_non_speech_ratio (standards ev) \<and> 0 \<le> std_max_silence (standards ev))"
proof -
  have "2 \<le> py_int (0.02 * real_of_int sr)"
    using sr py_int_frame_length [of sr] by simp
  then have n: "0 < n" using len by linarith
  show ?thesis
    by (simp add: evaluate_audio_def zero_metrics [OF n]
          zero_AudioEvaluator_detect_silence [OF sr len])
qed

lemma evaluate_audio_empty: "evaluate_audio ev [] sr = Inl ValueError"
  by (simp add: evaluate_audio_def calculate_rms_def calculate_peak_def np_max_def Let_def)

lemma evaluate_audio_bad_rate:
  assumes "audio_data \<noteq> []" and "sr < 100"
  shows "evaluate_audio ev audio_data sr = Inl ParameterError"
proof -
  have "py_int (0.01 * real_of_int sr) < 1"
    using assms(2) py_int_hop_ge1 [of sr] by linarith
  then have "frame_silence_mask audio_data (py_int (0.02 * real_of_int sr))
               (py_int (0.01 * real_of_int sr)) (-45) = Inl ParameterError"
    unfolding frame_silence_mask_Inl by simp
  then have "AudioEvaluator_detect_silence audio_data sr (-45) = Inl ParameterError"
    by (simp add: AudioEvaluator_detect_silence_def Let_def)
  then show ?thesis
    using assms(1)
    by (simp add: evaluate_audio_def calculate_peak_def np_max_def Let_def split: prod.splits)
qed




section \<open>The enhanced denoiser\<close>

subsection \<open>The moving average\<close>

lemma convolve_full_nth:
  "k < length a + length v - 1 \<Longrightarrow>
   convolve_full a v ! k =
     sum_list (map (\<lambda>j. if j \<le> k \<and> k - j < length v then a ! j * v ! (k - j) else 0)
                 [0..<length a])"
  by (simp add: convolve_full_def cong: if_cong)

lemma np_convolve_same_nth:
  assumes r: "np_convolve_same a v = Inr r"
      and lv: "length v \<le> length a"
      and i: "i < length a"
  shows "r ! i = convolve_full a v ! (i + (length v - 1) div 2)"
proof -
  let ?c = "(length v - 1) div 2"
  have ne: "a \<noteq> []" "v \<noteq> []" using r by (auto simp: np_convolve_same_def split: if_splits)
  then have pos: "0 < length v" by simp
  have "r = take (length a) (drop ?c (convolve_full a v))"
    using r ne lv by (simp add: np_convolve_same_def max_absorb1 min_absorb2)
  moreover have "?c + i < length a + length v - 1"
  proof -
    have "?c \<le> length v - 1" by simp
    then show ?thesis using i pos by linarith
  qed
  ultimately show ?thesis using i by (simp add: add.commute)
qed

lemma sum_list_if_scale:
  "sum_list (map (\<lambda>j. if P j then f j * (c::real) else 0) xs)
     = sum_list (map (\<lambda>j. if P j then f j else 0) xs) * c"
  by (induction xs) (simp_all add: algebra_simps)

lemma np_convolve_same_boxcar:
  assumes r: "np_convolve_same a (replicate w c) = Inr r"
      and w: "w \<le> length a"
      and i: "i < length a"
  shows "r ! i = sum_list (map (\<lambda>j. if j \<le> i + (w - 1) div 2 \<and> i + (w - 1) div 2 < j + w
                                      then a ! j else 0) [0..<length a]) * c"
proof -
  let ?k = "i + (w - 1) div 2"
  have ne: "replicate w c \<noteq> []" using r by (auto simp: np_convolve_same_def split: if_splits)
  then have pos: "0 < w" by simp
  have k: "?k < length a + length (replicate w c) - 1"
  proof -
    have "(w - 1) div 2 \<le> w - 1" by simp
    then show ?thesis using i pos by simp
  qed
  have "r ! i = convolve_full a (replicate w c) ! ?k"
    using np_convolve_same_nth [OF r _ i] w by simp
  also have "\<dots> = sum_list (map (\<lambda>j. if j \<le> ?k \<and> ?k - j < w then a ! j * replicate w c ! (?k - j) else 0)
                           [0..<length a])"
    using convolve_full_nth [OF k] by simp
  also have "\<dots> = sum_list (map (\<lambda>j. if j \<le> ?k \<and> ?k < j + w then a ! j * c else 0) [0..<length a])"
    by (intro arg_cong [where f = sum_list] map_cong refl) (auto simp: less_diff_conv2)
  also have "\<dots> = sum_list (map (\<lambda>j. if j \<le> ?k \<and> ?k < j + w then a ! j else 0) [0..<length a]) * c"
    by (rule sum_list_if_scale)
  finally show ?thesis .
qed


lemma enhanced_unfolded:
  "enhanced_multi_stage_denoising be self audio_data True =
     (case multi_stage_denoising be self audio_data of
        Inl e \<Rightarrow> Inl e
      | Inr base \<Rightarrow>
          (case NoiseReducer_detect_silence self audio_data None of
             Inl e \<Rightarrow> Inl e
           | Inr silence_mask \<Rightarrow>
               np_convolve_same
                 (map (\<lambda>i. if silence_mask ! i then base ! i * 0.9
                            else base ! i * 0.7 + audio_data ! i * 0.3)
                    [0..<length audio_data])
                 (replicate (nat (py_int (0.01 * real_of_int (sample_rate self))))
                    (1 / real_of_int (py_int (0.01 * real_of_int (sample_rate self)))))))"
proof (cases "multi_stage_denoising be self audio_data")
  case (Inl e)
  then show ?thesis by (simp add: enhanced_multi_stage_denoising_def)
next
  case b: (Inr base)
  have lb: "length base = length audio_data" using b by (rule multi_stage_denoising_length)
  show ?thesis
  proof (cases "NoiseReducer_detect_silence self audio_data None")
    case (Inl e)
    then show ?thesis using b by (simp add: enhanced_multi_stage_denoising_def)
  next
    case ds: (Inr silence_mask)
    have lm: "length silence_mask = length audio_data"
      using ds by (rule NoiseReducer_detect_silence_length)
    show ?thesis
      using b ds masked_mix_result [OF lb lm, of "0.7" "0.3"]
      by (simp add: enhanced_multi_stage_denoising_def Let_def)
  qed
qed

text \<open>
  Claim C9. \<open>enhanced_multi_stage_denoising\<close> returns an output for every buffer that
  \<open>multi_stage_denoising\<close> accepts. With voice preservation disabled it is
  \<open>multi_stage_denoising\<close>: the same output, or the same error, with nothing applied
  to it. With voice preservation enabled it is, for every input buffer, the smoothed
  blend of the output of \<open>multi_stage_denoising\<close> with the original buffer, or the error
  of that denoiser; every output is obtained from the output
  \<open>base\<close> of \<open>multi_stage_denoising\<close> by blending \<open>0.9 * base\<close> on the silent samples
  and \<open>0.7 * base + 0.3 * original\<close> on the others, and by convolving the blend (mode
  'same') with the boxcar of \<open>w = int(0.01 * sample_rate)\<close> values \<open>1 / w\<close>: each output
  sample is the sum of the blended samples in a window of \<open>w\<close> samples around it,
  those beyond the ends of the buffer counting for zero, divided by \<open>w\<close>.
\<close>

theorem enhanced_voice_preserve:
  "(100 \<le> sample_rate self \<and>
    py_int (0.02 * real_of_int (sample_rate self)) \<le> int (length audio_data) \<and>
    3 * max (length (snd (butter be 8 0.1))) (length (fst (butter be 8 0.1)))
      < length audio_data \<longrightarrow>
      (\<exists>out. enhanced_multi_stage_denoising be self audio_data voice_preserve = Inr out)) \<and>
   enhanced_multi_stage_denoising be self audio_data False
     = multi_stage_denoising be self audio_data \<and>
   enhanced_multi_stage_denoising be self audio_data True =
     (case multi_stage_denoising be self audio_data of
        Inl e \<Rightarrow> Inl e
      | Inr base \<Rightarrow>
          (case NoiseReducer_detect_silence self audio_data None of
             Inl e \<Rightarrow> Inl e
           | Inr silence_mask \<Rightarrow>
               np_convolve_same
                 (map (\<lambda>i. if silence_mask ! i then base ! i * 0.9
                            else base ! i * 0.7 + audio_data ! i * 0.3)
                    [0..<length audio_data])
                 (replicate (nat (py_int (0.01 * real_of_int (sample_rate self))))
                    (1 / real_of_int (py_int (0.01 * real_of_int (sample_rate self))))))) \<and>
   (enhanced_multi_stage_denoising be self audio_data True = Inr result \<longrightarrow>
     (\<exists>base silence_mask blended w.
        multi_stage_denoising be self audio_data = Inr base \<and>
        NoiseReducer_detect_silence self audio_data None = Inr silence_mask \<and>
        int w = py_int (0.01 * real_of_int (sample_rate self)) \<and> 0 < w \<and>
        length blended = length audio_data \<and>
        (\<forall>i<length audio_data.
           blended ! i = (if silence_mask ! i then 0.9 * base ! i
                          else 0.7 * base ! i + 0.3 * audio_data ! i)) \<and>
        np_convolve_same blended (replicate w (1 / real w)) = Inr result \<and>
        length result = length audio_data \<and>
        (\<forall>i<length audio_data.
           result ! i =
             sum_list (map (\<lambda>j. if j \<le> i + (w - 1) div 2 \<and> i + (w - 1) div 2 < j + w
                                  then blended ! j else 0) [0..<length audio_data]) / real w)))"
proof (intro conjI impI)
  assume "100 \<le> sample_rate self \<and>
    py_int (0.02 * real_of_int (sample_rate self)) \<le> int (length audio_data) \<and>
    3 * max (length (snd (butter be 8 0.1))) (length (fst (butter be 8 0.1)))
      < length audio_data"
  then show "\<exists>out. enhanced_multi_stage_denoising be self audio_data voice_preserve = Inr out"
    using enhanced_Inr [of self audio_data be voice_preserve] by blast
next
  show "enhanced_multi_stage_denoising be self audio_data False
          = multi_stage_denoising be self audio_data"
    by (simp add: enhanced_multi_stage_denoising_def split: sum.splits)
next
  show "enhanced_multi_stage_denoising be self audio_data True =
     (case multi_stage_denoising be self audio_data of
        Inl e \<Rightarrow> Inl e
      | Inr base \<Rightarrow>
          (case NoiseReducer_detect_silence self audio_data None of
             Inl e \<Rightarrow> Inl e
           | Inr silence_mask \<Rightarrow>
               np_convolve_same
                 (map (\<lambda>i. if silence_mask ! i then base ! i * 0.9
                            else base ! i * 0.7 + audio_data ! i * 0.3)
                    [0..<length audio_data])
                 (replicate (nat (py_int (0.01 * real_of_int (sample_rate self))))
                    (1 / real_of_int (py_int (0.01 * real_of_int (sample_rate self)))))))"
    by (rule enhanced_unfolded)
next
  assume run: "enhanced_multi_stage_denoising be self audio_data True = Inr result"
  let ?w = "py_int (0.01 * real_of_int (sample_rate self))"
  let ?n = "length audio_data"
  from enhanced_parts [OF run] obtain base silence_mask where
    b: "multi_stage_denoising be self audio_data = Inr base" and
    ds: "NoiseReducer_detect_silence self audio_data None = Inr silence_mask" and
    cv: "np_convolve_same
           (map (\<lambda>i. if silence_mask ! i then base ! i * 0.9
                      else base ! i * 0.7 + audio_data ! i * 0.3) [0..<?n])
           (replicate (nat ?w) (1 / real_of_int ?w)) = Inr result"
    by blast
  define blended where
    "blended = map (\<lambda>i. if silence_mask ! i then base ! i * 0.9
                         else base ! i * 0.7 + audio_data ! i * 0.3) [0..<?n]"
  define w where "w = nat ?w"
  have acc: "100 \<le> sample_rate self"
            "py_int (0.02 * real_of_int (sample_rate self)) \<le> int ?n"
    using NoiseReducer_detect_silence_accepts [OF ds] by simp_all
  have w1: "1 \<le> ?w" using acc(1) py_int_hop_ge1 by blast
  then have iw: "int w = ?w" and wpos: "0 < w" by (simp_all add: w_def)
  then have rw: "real w = real_of_int ?w" by (metis of_int_of_nat_eq)
  have "?w \<le> int ?n" using hop_le_frame_length [OF acc(1)] acc(2) by linarith
  then have wn: "w \<le> length blended" by (simp add: w_def blended_def)
  have lb: "length blended = ?n" by (simp add: blended_def)
  have cv': "np_convolve_same blended (replicate w (1 / real w)) = Inr result"
    using cv unfolding blended_def [symmetric] w_def [symmetric] rw .
  have lr: "length result = ?n" using run by (rule enhanced_length)
  have bl: "\<forall>i<?n. blended ! i = (if silence_mask ! i then 0.9 * base ! i
                                     else 0.7 * base ! i + 0.3 * audio_data ! i)"
    by (simp add: blended_def mult.commute)
  have avg: "\<forall>i<?n. result ! i =
               sum_list (map (\<lambda>j. if j \<le> i + (w - 1) div 2 \<and> i + (w - 1) div 2 < j + w
                                    then blended ! j else 0) [0..<?n]) / real w"
  proof (intro allI impI)
    fix i assume "i < ?n"
    then have "i < length blended" by (simp add: lb)
    from np_convolve_same_boxcar [OF cv' wn this] show "result ! i =
               sum_list (map (\<lambda>j. if j \<le> i + (w - 1) div 2 \<and> i + (w - 1) div 2 < j + w
                                    then blended ! j else 0) [0..<?n]) / real w"
      by (simp add: lb)
  qed
  show "\<exists>base silence_mask blended w.
        multi_stage_denoising be self audio_data = Inr base \<and>
        NoiseReducer_detect_silence self audio_data None = Inr silence_mask \<and>
        int w = py_int (0.01 * real_of_int (sample_rate self)) \<and> 0 < w \<and>
        length blended = length audio_data \<and>
        (\<forall>i<length audio_data.
           blended ! i = (if silence_mask ! i then 0.9 * base ! i
                          else 0.7 * base ! i + 0.3 * audio_data ! i)) \<and>
        np_convolve_same blended (replicate w (1 / real w)) = Inr result \<and>
        length result = length audio_data \<and>
        (\<forall>i<length audio_data.
           result ! i =
             sum_list (map (\<lambda>j. if j \<le> i + (w - 1) div 2 \<and> i + (w - 1) div 2 < j + w
                                  then blended ! j else 0) [0..<length audio_data]) / real w)"
    using b ds iw wpos lb bl cv' lr avg by blast
qed

theorem enhanced_voice_preserve_witness:
  "enhanced_multi_stage_denoising example_backend (NoiseReducer_init 100) [1, 0, 0, 0] True
     = Inr [29 / 50, 0, 0, 0] \<and>
   enhanced_multi_stage_denoising example_backend (NoiseReducer_init 100) [1, 0, 0, 0] False
     = Inr [2 / 5, 0, 0, 0] \<and>
   multi_stage_denoising example_backend (NoiseReducer_init 100) [1, 0, 0, 0]
     = Inr [2 / 5, 0, 0, 0] \<and>
   py_int (0.01 * real_of_int (sample_rate (NoiseReducer_init 100))) = 1"
  using enhanced_voice_preserve [where self = "NoiseReducer_init 100"
      and audio_data = "[1, 0, 0, 0]" and be = example_backend
      and result = "[29 / 50, 0, 0, 0]" and voice_preserve = True]
    enhanced_example multi_stage_example
  by simp

end
